theory Spec2Isabelle
  imports Complex_Main
begin

section \<open>JavaScript values\<close>

text \<open>
  The decorators of \<^verbatim>\<open>src/decorator/decorators.ts\<close> receive their rule parameters and
  their validation options as JavaScript values and put them into slots of type
  \<^verbatim>\<open>any\<close>. The static types of the signatures are erased when the program runs, so a
  parameter is modelled as a value of any runtime type. A number is carried as an opaque
  payload (no arithmetic happens at registration); negative zero is identified with zero.
  A function or a class is identified by its name.
\<close>

datatype jsnumber = Finite real | PosInfinity | NegInfinity | NaN

datatype Function = Function string

datatype jsval =
    JUndefined
  | JNull
  | JBoolean bool
  | JNumber jsnumber
  | JString string
  | JArray "jsval list"
  | JObject "(string \<times> jsval) list"
  | JFunction Function
  | JRegExp string string
  | JDate jsnumber

text \<open>
  An options structure is a plain object, given by its properties; the interface
  \<^verbatim>\<open>ValidationOptions\<close> is declared outside this file.
\<close>

type_synonym ValidationOptions = "(string \<times> jsval) list"

text \<open>The conversion to boolean that \<^verbatim>\<open>&&\<close> and \<^verbatim>\<open>!\<close> apply to an operand.\<close>

fun truthy :: "jsval \<Rightarrow> bool" where
  "truthy JUndefined = False"
| "truthy JNull = False"
| "truthy (JBoolean b) = b"
| "truthy (JNumber (Finite r)) = (r \<noteq> 0)"
| "truthy (JNumber PosInfinity) = True"
| "truthy (JNumber NegInfinity) = True"
| "truthy (JNumber NaN) = False"
| "truthy (JString s) = (s \<noteq> [])"
| "truthy (JArray xs) = True"
| "truthy (JObject ps) = True"
| "truthy (JFunction f) = True"
| "truthy (JRegExp s m) = True"
| "truthy (JDate t) = True"

text \<open>
  \<^verbatim>\<open>v instanceof Object\<close>: true of every object (plain objects, arrays, functions,
  regular expressions, dates), false of every primitive value. Objects created without
  a prototype are not part of the model.
\<close>

fun instanceof_Object :: "jsval \<Rightarrow> bool" where
  "instanceof_Object (JArray xs) = True"
| "instanceof_Object (JObject ps) = True"
| "instanceof_Object (JFunction f) = True"
| "instanceof_Object (JRegExp s m) = True"
| "instanceof_Object (JDate t) = True"
| "instanceof_Object JUndefined = False"
| "instanceof_Object JNull = False"
| "instanceof_Object (JBoolean b) = False"
| "instanceof_Object (JNumber n) = False"
| "instanceof_Object (JString s) = False"

text \<open>
  The first argument of a property decorator: the prototype of the decorated class. The
  decorators read only its \<^verbatim>\<open>constructor\<close>, the class itself.
\<close>

record Object =
  constructor :: Function

section \<open>Metadata\<close>

text \<open>
  The members of \<^verbatim>\<open>ValidationTypes\<close> that the decorators name. The class is declared
  in \<^verbatim>\<open>validation/ValidationTypes\<close>; the model keeps each member as a symbolic constant.
\<close>

datatype (plugins only: code) ValidationTypes =
    CUSTOM_VALIDATION | NESTED_VALIDATION | IS_EQUAL | IS_NOT_EQUAL
  | IS_EMPTY | IS_NOT_EMPTY | IS_IN | IS_NOT_IN
  | IS_BOOLEAN | IS_DATE | IS_NUMBER | IS_STRING
  | IS_DIVISIBLE_BY | IS_DECIMAL | IS_FLOAT | IS_POSITIVE_FLOAT
  | IS_NEGATIVE_FLOAT | IS_INT | IS_POSITIVE_INT | IS_NEGATIVE_INT
  | IS_GREATER | IS_LESS | IS_MIN_DATE | IS_MAX_DATE
  | IS_MATCH | IS_BOOLEAN_STRING | IS_DATE_STRING | IS_NUMERIC_STRING
  | IS_CONTAIN | IS_NOT_CONTAIN | IS_ALPHA | IS_ALPHANUMERIC
  | IS_ASCII | IS_BASE64 | IS_BYTE_LENGTH | IS_CREDIT_CARD
  | IS_CURRENCY | IS_EMAIL | IS_FQDN | IS_FULL_WIDTH
  | IS_HALF_WIDTH | IS_VARIABLE_WIDTH | IS_HEX_COLOR | IS_HEXADECIMAL
  | IS_IP | IS_ISBN | IS_ISIN | IS_ISO8601
  | IS_JSON | IS_LENGTH | IS_LOWERCASE | IS_MOBILE_PHONE
  | IS_MONGO_ID | IS_MULTIBYTE | IS_SURROGATE_PAIR | IS_URL
  | IS_UUID | IS_UPPERCASE | MIN_LENGTH | MAX_LENGTH
  | IS_CONTAIN_IN_ARRAY | IS_NOT_CONTAIN_IN_ARRAY | IS_NOT_EMPTY_ARRAY | IS_MIN_SIZE
  | IS_MAX_SIZE | IS_ALL_UNIQUE


text \<open>The object literal \<^verbatim>\<open>args\<close> that every decorator fills in.\<close>

record ValidationMetadataArgs =
  type :: ValidationTypes
  target :: Function
  propertyName :: string
  value1 :: jsval
  value2 :: jsval
  validationOptions :: jsval

text \<open>
  Modelled from the spec: the class \<^verbatim>\<open>ValidationMetadata\<close> is declared in
  \<^verbatim>\<open>metadata/ValidationMetadata\<close>. The Rule Descriptor of the data model has the fields
  \<open>kind\<close>, \<open>ownerType\<close>, \<open>fieldName\<close>, \<open>arg1\<close>, \<open>arg2\<close> (the untyped slots value1 and
  value2) and \<open>options\<close>.
\<close>

record ValidationMetadata =
  kind :: ValidationTypes
  ownerType :: Function
  fieldName :: string
  arg1 :: jsval
  arg2 :: jsval
  options :: jsval

text \<open>
  Modelled from the spec: the constructor of \<^verbatim>\<open>ValidationMetadata\<close> is outside this
  file. It creates the Rule Descriptor that holds what \<^verbatim>\<open>args\<close> holds.
\<close>

definition new_ValidationMetadata :: "ValidationMetadataArgs \<Rightarrow> ValidationMetadata" where
  "new_ValidationMetadata args =
     \<lparr>kind = type args, ownerType = target args, fieldName = propertyName args,
      arg1 = value1 args, arg2 = value2 args, options = validationOptions args\<rparr>"

text \<open>
  Modelled from the spec: the class \<^verbatim>\<open>ConstraintMetadata\<close> is declared in
  \<^verbatim>\<open>metadata/ConstraintMetadata\<close>. A Constraint Catalog Entry binds the name of a custom
  constraint to its evaluator, the decorated class. The decorator may leave the name out.
\<close>

record ConstraintMetadata =
  evaluator :: Function
  name :: "string option"

text \<open>
  Modelled from the spec: the constructor of \<^verbatim>\<open>ConstraintMetadata\<close> is outside this
  file. It creates the Constraint Catalog Entry for the decorated class and the name given.
\<close>

definition new_ConstraintMetadata :: "Function \<Rightarrow> string option \<Rightarrow> ConstraintMetadata" where
  "new_ConstraintMetadata t n = \<lparr>evaluator = t, name = n\<rparr>"

section \<open>The metadata storage\<close>

text \<open>
  Modelled from the spec: the class \<^verbatim>\<open>MetadataStorage\<close> is declared in
  \<^verbatim>\<open>metadata/MetadataStorage\<close>. The Registry maps an owner type to an ordered sequence of
  Rule Descriptors; the Catalog holds the custom constraints registered by name.
  \<^verbatim>\<open>getFromContainer(MetadataStorage)\<close> is the one storage of the process: the model
  passes it through every call and returns it updated.
\<close>

record MetadataStorage =
  registry :: "Function \<Rightarrow> ValidationMetadata list"
  catalog :: "ConstraintMetadata list"

text \<open>
  Modelled from the spec: the storage before any registration, which is also the storage
  after \<open>reset()\<close>. No owner type has a descriptor and no name is bound.
\<close>

definition emptyStorage :: MetadataStorage where
  "emptyStorage = \<lparr>registry = (\<lambda>t. []), catalog = []\<rparr>"

text \<open>
  Modelled from the spec: the configuration faults of the error handling design. No
  decorator of this file raises anything itself.
\<close>

datatype ConfigurationFault = UnknownConstraint | DuplicateConstraintName | UnsupportedRuleKind

text \<open>
  Modelled from the spec: the effect of \<open>register(descriptor)\<close> on the storage. The
  descriptor is appended to the sequence of its owner type; nothing else changes.
\<close>

definition register :: "ValidationMetadata \<Rightarrow> MetadataStorage \<Rightarrow> MetadataStorage" where
  "register d st = st\<lparr>registry := (registry st)(ownerType d := registry st (ownerType d) @ [d])\<rparr>"

text \<open>
  Modelled from the spec: the method \<^verbatim>\<open>addValidationMetadata\<close> of
  \<^verbatim>\<open>MetadataStorage\<close> is outside this file. It is the operation
  \<open>register(descriptor)\<close>, which appends to the owner type's sequence, never rejects and
  never deduplicates.
\<close>

definition addValidationMetadata ::
  "ValidationMetadata \<Rightarrow> MetadataStorage \<Rightarrow> ConfigurationFault + MetadataStorage" where
  "addValidationMetadata d st = Inr (register d st)"

text \<open>
  Modelled from the spec: the evaluator that a custom-constraint name is bound to, if
  any. Custom constraints are registered by name.
\<close>

definition lookupConstraint :: "MetadataStorage \<Rightarrow> string \<Rightarrow> Function option" where
  "lookupConstraint st n = map_option evaluator (find (\<lambda>m. name m = Some n) (catalog st))"

text \<open>Modelled from the spec: whether a custom-constraint name is already bound.\<close>

definition isBound :: "string \<Rightarrow> MetadataStorage \<Rightarrow> bool" where
  "isBound n st = (lookupConstraint st n \<noteq> None)"

text \<open>
  What the storage does with an entry that has no name is written neither in this file nor
  in the spec, which registers custom constraints by name only. It is left open: it is a
  parameter of the operations below, and what is proved of them holds for every choice of it.
\<close>

type_synonym unnamedRegistration =
  "Function \<Rightarrow> MetadataStorage \<Rightarrow> ConfigurationFault + MetadataStorage"

text \<open>
  Modelled from the spec: the method \<^verbatim>\<open>addConstraintMetadata\<close> of
  \<^verbatim>\<open>MetadataStorage\<close> is outside this file. For an entry with a name it is the operation
  \<open>registerCustomConstraint(name, evaluatorCapability)\<close>, which fails with a
  \<open>DuplicateConstraintName\<close> error if the name is already bound, unless the registration
  explicitly allows override. A registration that overrides replaces the binding of its
  name. An entry without a name is handed to the parameter \<open>unnamed\<close>.
\<close>

definition addConstraintMetadata ::
  "unnamedRegistration \<Rightarrow> ConstraintMetadata \<Rightarrow> bool \<Rightarrow> MetadataStorage
     \<Rightarrow> ConfigurationFault + MetadataStorage" where
  "addConstraintMetadata unnamed m override st =
     (case name m of
        None \<Rightarrow> unnamed (evaluator m) st
      | Some n \<Rightarrow>
          if isBound n st \<and> \<not> override then Inl DuplicateConstraintName
          else Inr (st\<lparr>catalog := filter (\<lambda>e. name e \<noteq> Some n) (catalog st) @ [m]\<rparr>))"

section \<open>The decorators\<close>

text \<open>
  A decorator factory takes the rule parameters and the validation options and returns
  the decorator proper, a function of the decorated prototype and the property name that
  registers one piece of metadata.
\<close>

type_synonym decorator =
  "Object \<Rightarrow> string \<Rightarrow> MetadataStorage \<Rightarrow> ConfigurationFault + MetadataStorage"

subsection \<open>System\<close>

text \<open>
  Registers a custom validator class. The call hands one argument to
  \<^verbatim>\<open>addConstraintMetadata\<close>: it never asks for an override. The first parameter of the
  model is the behaviour of the storage on an entry without a name.
\<close>

definition ValidatorConstraint ::
  "unnamedRegistration \<Rightarrow> string option \<Rightarrow> Function \<Rightarrow> MetadataStorage
     \<Rightarrow> ConfigurationFault + MetadataStorage" where
  "ValidatorConstraint unnamed = (\<lambda>name. (\<lambda>target.
     addConstraintMetadata unnamed (new_ConstraintMetadata target name) False))"

definition Validate :: "jsval \<Rightarrow> jsval \<Rightarrow> decorator" where
  "Validate = (\<lambda>constraintClass validationOptions. (\<lambda>object propertyName.
     (let args = \<lparr>type = CUSTOM_VALIDATION, target = constructor object,
                  propertyName = propertyName,
                  value1 = constraintClass, value2 = JUndefined,
                  validationOptions = validationOptions\<rparr>
      in addValidationMetadata (new_ValidationMetadata args))))"

definition NestedValidation :: "jsval \<Rightarrow> decorator" where
  "NestedValidation = (\<lambda>validationOptions. (\<lambda>object propertyName.
     (let args = \<lparr>type = NESTED_VALIDATION, target = constructor object,
                  propertyName = propertyName,
                  value1 = JUndefined, value2 = JUndefined,
                  validationOptions = validationOptions\<rparr>
      in addValidationMetadata (new_ValidationMetadata args))))"

subsection \<open>Common checkers\<close>

definition IsEqual :: "jsval \<Rightarrow> jsval \<Rightarrow> decorator" where
  "IsEqual = (\<lambda>comparison validationOptions. (\<lambda>object propertyName.
     (let args = \<lparr>type = IS_EQUAL, target = constructor object,
                  propertyName = propertyName,
                  value1 = comparison, value2 = JUndefined,
                  validationOptions = validationOptions\<rparr>
      in addValidationMetadata (new_ValidationMetadata args))))"

definition IsNotEqual :: "jsval \<Rightarrow> jsval \<Rightarrow> decorator" where
  "IsNotEqual = (\<lambda>comparison validationOptions. (\<lambda>object propertyName.
     (let args = \<lparr>type = IS_NOT_EQUAL, target = constructor object,
                  propertyName = propertyName,
                  value1 = comparison, value2 = JUndefined,
                  validationOptions = validationOptions\<rparr>
      in addValidationMetadata (new_ValidationMetadata args))))"

definition IsEmpty :: "jsval \<Rightarrow> decorator" where
  "IsEmpty = (\<lambda>validationOptions. (\<lambda>object propertyName.
     (let args = \<lparr>type = IS_EMPTY, target = constructor object,
                  propertyName = propertyName,
                  value1 = JUndefined, value2 = JUndefined,
                  validationOptions = validationOptions\<rparr>
      in addValidationMetadata (new_ValidationMetadata args))))"

definition IsNotEmpty :: "jsval \<Rightarrow> decorator" where
  "IsNotEmpty = (\<lambda>validationOptions. (\<lambda>object propertyName.
     (let args = \<lparr>type = IS_NOT_EMPTY, target = constructor object,
                  propertyName = propertyName,
                  value1 = JUndefined, value2 = JUndefined,
                  validationOptions = validationOptions\<rparr>
      in addValidationMetadata (new_ValidationMetadata args))))"

definition IsIn :: "jsval \<Rightarrow> jsval \<Rightarrow> decorator" where
  "IsIn = (\<lambda>values validationOptions. (\<lambda>object propertyName.
     (let args = \<lparr>type = IS_IN, target = constructor object,
                  propertyName = propertyName,
                  value1 = values, value2 = JUndefined,
                  validationOptions = validationOptions\<rparr>
      in addValidationMetadata (new_ValidationMetadata args))))"

definition IsNotIn :: "jsval \<Rightarrow> jsval \<Rightarrow> decorator" where
  "IsNotIn = (\<lambda>values validationOptions. (\<lambda>object propertyName.
     (let args = \<lparr>type = IS_NOT_IN, target = constructor object,
                  propertyName = propertyName,
                  value1 = values, value2 = JUndefined,
                  validationOptions = validationOptions\<rparr>
      in addValidationMetadata (new_ValidationMetadata args))))"

subsection \<open>Type checkers\<close>

definition IsBoolean :: "jsval \<Rightarrow> decorator" where
  "IsBoolean = (\<lambda>validationOptions. (\<lambda>object propertyName.
     (let args = \<lparr>type = IS_BOOLEAN, target = constructor object,
                  propertyName = propertyName,
                  value1 = JUndefined, value2 = JUndefined,
                  validationOptions = validationOptions\<rparr>
      in addValidationMetadata (new_ValidationMetadata args))))"

definition IsDate :: "jsval \<Rightarrow> decorator" where
  "IsDate = (\<lambda>validationOptions. (\<lambda>object propertyName.
     (let args = \<lparr>type = IS_DATE, target = constructor object,
                  propertyName = propertyName,
                  value1 = JUndefined, value2 = JUndefined,
                  validationOptions = validationOptions\<rparr>
      in addValidationMetadata (new_ValidationMetadata args))))"

definition IsNumber :: "jsval \<Rightarrow> decorator" where
  "IsNumber = (\<lambda>validationOptions. (\<lambda>object propertyName.
     (let args = \<lparr>type = IS_NUMBER, target = constructor object,
                  propertyName = propertyName,
                  value1 = JUndefined, value2 = JUndefined,
                  validationOptions = validationOptions\<rparr>
      in addValidationMetadata (new_ValidationMetadata args))))"

definition IsString :: "jsval \<Rightarrow> decorator" where
  "IsString = (\<lambda>validationOptions. (\<lambda>object propertyName.
     (let args = \<lparr>type = IS_STRING, target = constructor object,
                  propertyName = propertyName,
                  value1 = JUndefined, value2 = JUndefined,
                  validationOptions = validationOptions\<rparr>
      in addValidationMetadata (new_ValidationMetadata args))))"

subsection \<open>Number checkers\<close>

definition IsDivisibleBy :: "jsval \<Rightarrow> jsval \<Rightarrow> decorator" where
  "IsDivisibleBy = (\<lambda>num validationOptions. (\<lambda>object propertyName.
     (let args = \<lparr>type = IS_DIVISIBLE_BY, target = constructor object,
                  propertyName = propertyName,
                  value1 = num, value2 = JUndefined,
                  validationOptions = validationOptions\<rparr>
      in addValidationMetadata (new_ValidationMetadata args))))"

definition IsDecimal :: "jsval \<Rightarrow> decorator" where
  "IsDecimal = (\<lambda>validationOptions. (\<lambda>object propertyName.
     (let args = \<lparr>type = IS_DECIMAL, target = constructor object,
                  propertyName = propertyName,
                  value1 = JUndefined, value2 = JUndefined,
                  validationOptions = validationOptions\<rparr>
      in addValidationMetadata (new_ValidationMetadata args))))"

definition IsFloat :: "jsval \<Rightarrow> jsval \<Rightarrow> decorator" where
  "IsFloat = (\<lambda>options validationOptions. (\<lambda>object propertyName.
     (let args = \<lparr>type = IS_FLOAT, target = constructor object,
                  propertyName = propertyName,
                  value1 = options, value2 = JUndefined,
                  validationOptions = validationOptions\<rparr>
      in addValidationMetadata (new_ValidationMetadata args))))"

definition IsPositiveFloat :: "jsval \<Rightarrow> jsval \<Rightarrow> decorator" where
  "IsPositiveFloat = (\<lambda>options validationOptions. (\<lambda>object propertyName.
     (let args = \<lparr>type = IS_POSITIVE_FLOAT, target = constructor object,
                  propertyName = propertyName,
                  value1 = options, value2 = JUndefined,
                  validationOptions = validationOptions\<rparr>
      in addValidationMetadata (new_ValidationMetadata args))))"

definition IsNegativeFloat :: "jsval \<Rightarrow> jsval \<Rightarrow> decorator" where
  "IsNegativeFloat = (\<lambda>options validationOptions. (\<lambda>object propertyName.
     (let args = \<lparr>type = IS_NEGATIVE_FLOAT, target = constructor object,
                  propertyName = propertyName,
                  value1 = options, value2 = JUndefined,
                  validationOptions = validationOptions\<rparr>
      in addValidationMetadata (new_ValidationMetadata args))))"

definition IsInt :: "jsval \<Rightarrow> jsval \<Rightarrow> decorator" where
  "IsInt = (\<lambda>options validationOptions. (\<lambda>object propertyName.
     (let args = \<lparr>type = IS_INT, target = constructor object,
                  propertyName = propertyName,
                  value1 = options, value2 = JUndefined,
                  validationOptions = validationOptions\<rparr>
      in addValidationMetadata (new_ValidationMetadata args))))"

definition IsPositiveInt :: "jsval \<Rightarrow> jsval \<Rightarrow> decorator" where
  "IsPositiveInt = (\<lambda>options validationOptions. (\<lambda>object propertyName.
     (let args = \<lparr>type = IS_POSITIVE_INT, target = constructor object,
                  propertyName = propertyName,
                  value1 = options, value2 = JUndefined,
                  validationOptions = validationOptions\<rparr>
      in addValidationMetadata (new_ValidationMetadata args))))"

definition IsNegativeInt :: "jsval \<Rightarrow> jsval \<Rightarrow> decorator" where
  "IsNegativeInt = (\<lambda>options validationOptions. (\<lambda>object propertyName.
     (let args = \<lparr>type = IS_NEGATIVE_INT, target = constructor object,
                  propertyName = propertyName,
                  value1 = options, value2 = JUndefined,
                  validationOptions = validationOptions\<rparr>
      in addValidationMetadata (new_ValidationMetadata args))))"

definition IsGreater :: "jsval \<Rightarrow> jsval \<Rightarrow> decorator" where
  "IsGreater = (\<lambda>min validationOptions. (\<lambda>object propertyName.
     (let args = \<lparr>type = IS_GREATER, target = constructor object,
                  propertyName = propertyName,
                  value1 = min, value2 = JUndefined,
                  validationOptions = validationOptions\<rparr>
      in addValidationMetadata (new_ValidationMetadata args))))"

definition IsLess :: "jsval \<Rightarrow> jsval \<Rightarrow> decorator" where
  "IsLess = (\<lambda>max validationOptions. (\<lambda>object propertyName.
     (let args = \<lparr>type = IS_LESS, target = constructor object,
                  propertyName = propertyName,
                  value1 = max, value2 = JUndefined,
                  validationOptions = validationOptions\<rparr>
      in addValidationMetadata (new_ValidationMetadata args))))"

subsection \<open>Date checkers\<close>

definition IsMinDate :: "jsval \<Rightarrow> jsval \<Rightarrow> decorator" where
  "IsMinDate = (\<lambda>date validationOptions. (\<lambda>object propertyName.
     (let args = \<lparr>type = IS_MIN_DATE, target = constructor object,
                  propertyName = propertyName,
                  value1 = date, value2 = JUndefined,
                  validationOptions = validationOptions\<rparr>
      in addValidationMetadata (new_ValidationMetadata args))))"

definition IsMaxDate :: "jsval \<Rightarrow> jsval \<Rightarrow> decorator" where
  "IsMaxDate = (\<lambda>date validationOptions. (\<lambda>object propertyName.
     (let args = \<lparr>type = IS_MAX_DATE, target = constructor object,
                  propertyName = propertyName,
                  value1 = date, value2 = JUndefined,
                  validationOptions = validationOptions\<rparr>
      in addValidationMetadata (new_ValidationMetadata args))))"

subsection \<open>Regexp checkers\<close>

text \<open>
  Checks if string matches the pattern. The second argument is either the modifiers or
  the validation options; \<^verbatim>\<open>modifiers\<close> is declared without a value and stays undefined
  in the first branch.
\<close>

definition IsMatch :: "jsval \<Rightarrow> jsval \<Rightarrow> jsval \<Rightarrow> decorator" where
  "IsMatch = (\<lambda>pattern modifiersOrAnnotationOptions validationOptions.
     (let (modifiers, validationOptions) =
            (if truthy modifiersOrAnnotationOptions
                \<and> instanceof_Object modifiersOrAnnotationOptions
                \<and> \<not> truthy validationOptions
             then (JUndefined, modifiersOrAnnotationOptions)
             else (modifiersOrAnnotationOptions, validationOptions))
      in (\<lambda>object propertyName.
     (let args = \<lparr>type = IS_MATCH, target = constructor object,
                  propertyName = propertyName,
                  value1 = pattern, value2 = modifiers,
                  validationOptions = validationOptions\<rparr>
      in addValidationMetadata (new_ValidationMetadata args)))))"

subsection \<open>String-as-types checkers\<close>

definition IsBooleanString :: "jsval \<Rightarrow> decorator" where
  "IsBooleanString = (\<lambda>validationOptions. (\<lambda>object propertyName.
     (let args = \<lparr>type = IS_BOOLEAN_STRING, target = constructor object,
                  propertyName = propertyName,
                  value1 = JUndefined, value2 = JUndefined,
                  validationOptions = validationOptions\<rparr>
      in addValidationMetadata (new_ValidationMetadata args))))"

definition IsDateString :: "jsval \<Rightarrow> decorator" where
  "IsDateString = (\<lambda>validationOptions. (\<lambda>object propertyName.
     (let args = \<lparr>type = IS_DATE_STRING, target = constructor object,
                  propertyName = propertyName,
                  value1 = JUndefined, value2 = JUndefined,
                  validationOptions = validationOptions\<rparr>
      in addValidationMetadata (new_ValidationMetadata args))))"

definition IsNumericString :: "jsval \<Rightarrow> decorator" where
  "IsNumericString = (\<lambda>validationOptions. (\<lambda>object propertyName.
     (let args = \<lparr>type = IS_NUMERIC_STRING, target = constructor object,
                  propertyName = propertyName,
                  value1 = JUndefined, value2 = JUndefined,
                  validationOptions = validationOptions\<rparr>
      in addValidationMetadata (new_ValidationMetadata args))))"

subsection \<open>String checkers\<close>

definition IsContain :: "jsval \<Rightarrow> jsval \<Rightarrow> decorator" where
  "IsContain = (\<lambda>seed validationOptions. (\<lambda>object propertyName.
     (let args = \<lparr>type = IS_CONTAIN, target = constructor object,
                  propertyName = propertyName,
                  value1 = seed, value2 = JUndefined,
                  validationOptions = validationOptions\<rparr>
      in addValidationMetadata (new_ValidationMetadata args))))"

definition IsNotContain :: "jsval \<Rightarrow> jsval \<Rightarrow> decorator" where
  "IsNotContain = (\<lambda>seed validationOptions. (\<lambda>object propertyName.
     (let args = \<lparr>type = IS_NOT_CONTAIN, target = constructor object,
                  propertyName = propertyName,
                  value1 = seed, value2 = JUndefined,
                  validationOptions = validationOptions\<rparr>
      in addValidationMetadata (new_ValidationMetadata args))))"

definition IsAlpha :: "jsval \<Rightarrow> decorator" where
  "IsAlpha = (\<lambda>validationOptions. (\<lambda>object propertyName.
     (let args = \<lparr>type = IS_ALPHA, target = constructor object,
                  propertyName = propertyName,
                  value1 = JUndefined, value2 = JUndefined,
                  validationOptions = validationOptions\<rparr>
      in addValidationMetadata (new_ValidationMetadata args))))"

definition IsAlphanumeric :: "jsval \<Rightarrow> decorator" where
  "IsAlphanumeric = (\<lambda>validationOptions. (\<lambda>object propertyName.
     (let args = \<lparr>type = IS_ALPHANUMERIC, target = constructor object,
                  propertyName = propertyName,
                  value1 = JUndefined, value2 = JUndefined,
                  validationOptions = validationOptions\<rparr>
      in addValidationMetadata (new_ValidationMetadata args))))"

definition IsAscii :: "jsval \<Rightarrow> decorator" where
  "IsAscii = (\<lambda>validationOptions. (\<lambda>object propertyName.
     (let args = \<lparr>type = IS_ASCII, target = constructor object,
                  propertyName = propertyName,
                  value1 = JUndefined, value2 = JUndefined,
                  validationOptions = validationOptions\<rparr>
      in addValidationMetadata (new_ValidationMetadata args))))"

definition IsBase64 :: "jsval \<Rightarrow> decorator" where
  "IsBase64 = (\<lambda>validationOptions. (\<lambda>object propertyName.
     (let args = \<lparr>type = IS_BASE64, target = constructor object,
                  propertyName = propertyName,
                  value1 = JUndefined, value2 = JUndefined,
                  validationOptions = validationOptions\<rparr>
      in addValidationMetadata (new_ValidationMetadata args))))"

definition IsByteLength :: "jsval \<Rightarrow> jsval \<Rightarrow> jsval \<Rightarrow> decorator" where
  "IsByteLength = (\<lambda>min max validationOptions. (\<lambda>object propertyName.
     (let args = \<lparr>type = IS_BYTE_LENGTH, target = constructor object,
                  propertyName = propertyName,
                  value1 = min, value2 = max,
                  validationOptions = validationOptions\<rparr>
      in addValidationMetadata (new_ValidationMetadata args))))"

definition IsCreditCard :: "jsval \<Rightarrow> decorator" where
  "IsCreditCard = (\<lambda>validationOptions. (\<lambda>object propertyName.
     (let args = \<lparr>type = IS_CREDIT_CARD, target = constructor object,
                  propertyName = propertyName,
                  value1 = JUndefined, value2 = JUndefined,
                  validationOptions = validationOptions\<rparr>
      in addValidationMetadata (new_ValidationMetadata args))))"

definition IsCurrency :: "jsval \<Rightarrow> jsval \<Rightarrow> decorator" where
  "IsCurrency = (\<lambda>options validationOptions. (\<lambda>object propertyName.
     (let args = \<lparr>type = IS_CURRENCY, target = constructor object,
                  propertyName = propertyName,
                  value1 = options, value2 = JUndefined,
                  validationOptions = validationOptions\<rparr>
      in addValidationMetadata (new_ValidationMetadata args))))"

definition IsEmail :: "jsval \<Rightarrow> jsval \<Rightarrow> decorator" where
  "IsEmail = (\<lambda>options validationOptions. (\<lambda>object propertyName.
     (let args = \<lparr>type = IS_EMAIL, target = constructor object,
                  propertyName = propertyName,
                  value1 = options, value2 = JUndefined,
                  validationOptions = validationOptions\<rparr>
      in addValidationMetadata (new_ValidationMetadata args))))"

definition IsFQDN :: "jsval \<Rightarrow> jsval \<Rightarrow> decorator" where
  "IsFQDN = (\<lambda>options validationOptions. (\<lambda>object propertyName.
     (let args = \<lparr>type = IS_FQDN, target = constructor object,
                  propertyName = propertyName,
                  value1 = options, value2 = JUndefined,
                  validationOptions = validationOptions\<rparr>
      in addValidationMetadata (new_ValidationMetadata args))))"

definition IsFullWidth :: "jsval \<Rightarrow> decorator" where
  "IsFullWidth = (\<lambda>validationOptions. (\<lambda>object propertyName.
     (let args = \<lparr>type = IS_FULL_WIDTH, target = constructor object,
                  propertyName = propertyName,
                  value1 = JUndefined, value2 = JUndefined,
                  validationOptions = validationOptions\<rparr>
      in addValidationMetadata (new_ValidationMetadata args))))"

definition IsHalfWidth :: "jsval \<Rightarrow> decorator" where
  "IsHalfWidth = (\<lambda>validationOptions. (\<lambda>object propertyName.
     (let args = \<lparr>type = IS_HALF_WIDTH, target = constructor object,
                  propertyName = propertyName,
                  value1 = JUndefined, value2 = JUndefined,
                  validationOptions = validationOptions\<rparr>
      in addValidationMetadata (new_ValidationMetadata args))))"

definition IsVariableWidth :: "jsval \<Rightarrow> decorator" where
  "IsVariableWidth = (\<lambda>validationOptions. (\<lambda>object propertyName.
     (let args = \<lparr>type = IS_VARIABLE_WIDTH, target = constructor object,
                  propertyName = propertyName,
                  value1 = JUndefined, value2 = JUndefined,
                  validationOptions = validationOptions\<rparr>
      in addValidationMetadata (new_ValidationMetadata args))))"

definition IsHexColor :: "jsval \<Rightarrow> decorator" where
  "IsHexColor = (\<lambda>validationOptions. (\<lambda>object propertyName.
     (let args = \<lparr>type = IS_HEX_COLOR, target = constructor object,
                  propertyName = propertyName,
                  value1 = JUndefined, value2 = JUndefined,
                  validationOptions = validationOptions\<rparr>
      in addValidationMetadata (new_ValidationMetadata args))))"

definition IsHexadecimal :: "jsval \<Rightarrow> decorator" where
  "IsHexadecimal = (\<lambda>validationOptions. (\<lambda>object propertyName.
     (let args = \<lparr>type = IS_HEXADECIMAL, target = constructor object,
                  propertyName = propertyName,
                  value1 = JUndefined, value2 = JUndefined,
                  validationOptions = validationOptions\<rparr>
      in addValidationMetadata (new_ValidationMetadata args))))"

definition IsIP :: "jsval \<Rightarrow> jsval \<Rightarrow> decorator" where
  "IsIP = (\<lambda>version validationOptions. (\<lambda>object propertyName.
     (let args = \<lparr>type = IS_IP, target = constructor object,
                  propertyName = propertyName,
                  value1 = version, value2 = JUndefined,
                  validationOptions = validationOptions\<rparr>
      in addValidationMetadata (new_ValidationMetadata args))))"

definition IsISBN :: "jsval \<Rightarrow> jsval \<Rightarrow> decorator" where
  "IsISBN = (\<lambda>version validationOptions. (\<lambda>object propertyName.
     (let args = \<lparr>type = IS_ISBN, target = constructor object,
                  propertyName = propertyName,
                  value1 = version, value2 = JUndefined,
                  validationOptions = validationOptions\<rparr>
      in addValidationMetadata (new_ValidationMetadata args))))"

definition IsISIN :: "jsval \<Rightarrow> decorator" where
  "IsISIN = (\<lambda>validationOptions. (\<lambda>object propertyName.
     (let args = \<lparr>type = IS_ISIN, target = constructor object,
                  propertyName = propertyName,
                  value1 = JUndefined, value2 = JUndefined,
                  validationOptions = validationOptions\<rparr>
      in addValidationMetadata (new_ValidationMetadata args))))"

definition IsISO8601 :: "jsval \<Rightarrow> decorator" where
  "IsISO8601 = (\<lambda>validationOptions. (\<lambda>object propertyName.
     (let args = \<lparr>type = IS_ISO8601, target = constructor object,
                  propertyName = propertyName,
                  value1 = JUndefined, value2 = JUndefined,
                  validationOptions = validationOptions\<rparr>
      in addValidationMetadata (new_ValidationMetadata args))))"

definition IsJSON :: "jsval \<Rightarrow> decorator" where
  "IsJSON = (\<lambda>validationOptions. (\<lambda>object propertyName.
     (let args = \<lparr>type = IS_JSON, target = constructor object,
                  propertyName = propertyName,
                  value1 = JUndefined, value2 = JUndefined,
                  validationOptions = validationOptions\<rparr>
      in addValidationMetadata (new_ValidationMetadata args))))"

definition IsLength :: "jsval \<Rightarrow> jsval \<Rightarrow> jsval \<Rightarrow> decorator" where
  "IsLength = (\<lambda>min max validationOptions. (\<lambda>object propertyName.
     (let args = \<lparr>type = IS_LENGTH, target = constructor object,
                  propertyName = propertyName,
                  value1 = min, value2 = max,
                  validationOptions = validationOptions\<rparr>
      in addValidationMetadata (new_ValidationMetadata args))))"

definition IsLowercase :: "jsval \<Rightarrow> decorator" where
  "IsLowercase = (\<lambda>validationOptions. (\<lambda>object propertyName.
     (let args = \<lparr>type = IS_LOWERCASE, target = constructor object,
                  propertyName = propertyName,
                  value1 = JUndefined, value2 = JUndefined,
                  validationOptions = validationOptions\<rparr>
      in addValidationMetadata (new_ValidationMetadata args))))"

definition IsMobilePhone :: "jsval \<Rightarrow> jsval \<Rightarrow> decorator" where
  "IsMobilePhone = (\<lambda>locale validationOptions. (\<lambda>object propertyName.
     (let args = \<lparr>type = IS_MOBILE_PHONE, target = constructor object,
                  propertyName = propertyName,
                  value1 = locale, value2 = JUndefined,
                  validationOptions = validationOptions\<rparr>
      in addValidationMetadata (new_ValidationMetadata args))))"

definition IsMongoId :: "jsval \<Rightarrow> decorator" where
  "IsMongoId = (\<lambda>validationOptions. (\<lambda>object propertyName.
     (let args = \<lparr>type = IS_MONGO_ID, target = constructor object,
                  propertyName = propertyName,
                  value1 = JUndefined, value2 = JUndefined,
                  validationOptions = validationOptions\<rparr>
      in addValidationMetadata (new_ValidationMetadata args))))"

definition IsMultibyte :: "jsval \<Rightarrow> decorator" where
  "IsMultibyte = (\<lambda>validationOptions. (\<lambda>object propertyName.
     (let args = \<lparr>type = IS_MULTIBYTE, target = constructor object,
                  propertyName = propertyName,
                  value1 = JUndefined, value2 = JUndefined,
                  validationOptions = validationOptions\<rparr>
      in addValidationMetadata (new_ValidationMetadata args))))"

definition IsSurrogatePair :: "jsval \<Rightarrow> decorator" where
  "IsSurrogatePair = (\<lambda>validationOptions. (\<lambda>object propertyName.
     (let args = \<lparr>type = IS_SURROGATE_PAIR, target = constructor object,
                  propertyName = propertyName,
                  value1 = JUndefined, value2 = JUndefined,
                  validationOptions = validationOptions\<rparr>
      in addValidationMetadata (new_ValidationMetadata args))))"

definition IsUrl :: "jsval \<Rightarrow> jsval \<Rightarrow> decorator" where
  "IsUrl = (\<lambda>options validationOptions. (\<lambda>object propertyName.
     (let args = \<lparr>type = IS_URL, target = constructor object,
                  propertyName = propertyName,
                  value1 = options, value2 = JUndefined,
                  validationOptions = validationOptions\<rparr>
      in addValidationMetadata (new_ValidationMetadata args))))"

definition IsUUID :: "jsval \<Rightarrow> jsval \<Rightarrow> decorator" where
  "IsUUID = (\<lambda>version validationOptions. (\<lambda>object propertyName.
     (let args = \<lparr>type = IS_UUID, target = constructor object,
                  propertyName = propertyName,
                  value1 = version, value2 = JUndefined,
                  validationOptions = validationOptions\<rparr>
      in addValidationMetadata (new_ValidationMetadata args))))"

definition IsUppercase :: "jsval \<Rightarrow> decorator" where
  "IsUppercase = (\<lambda>validationOptions. (\<lambda>object propertyName.
     (let args = \<lparr>type = IS_UPPERCASE, target = constructor object,
                  propertyName = propertyName,
                  value1 = JUndefined, value2 = JUndefined,
                  validationOptions = validationOptions\<rparr>
      in addValidationMetadata (new_ValidationMetadata args))))"

definition IsMinLength :: "jsval \<Rightarrow> jsval \<Rightarrow> decorator" where
  "IsMinLength = (\<lambda>min validationOptions. (\<lambda>object propertyName.
     (let args = \<lparr>type = MIN_LENGTH, target = constructor object,
                  propertyName = propertyName,
                  value1 = min, value2 = JUndefined,
                  validationOptions = validationOptions\<rparr>
      in addValidationMetadata (new_ValidationMetadata args))))"

definition IsMaxLength :: "jsval \<Rightarrow> jsval \<Rightarrow> decorator" where
  "IsMaxLength = (\<lambda>max validationOptions. (\<lambda>object propertyName.
     (let args = \<lparr>type = MAX_LENGTH, target = constructor object,
                  propertyName = propertyName,
                  value1 = max, value2 = JUndefined,
                  validationOptions = validationOptions\<rparr>
      in addValidationMetadata (new_ValidationMetadata args))))"

subsection \<open>Array checkers\<close>

definition IsContainInArray :: "jsval \<Rightarrow> jsval \<Rightarrow> decorator" where
  "IsContainInArray = (\<lambda>values validationOptions. (\<lambda>object propertyName.
     (let args = \<lparr>type = IS_CONTAIN_IN_ARRAY, target = constructor object,
                  propertyName = propertyName,
                  value1 = values, value2 = JUndefined,
                  validationOptions = validationOptions\<rparr>
      in addValidationMetadata (new_ValidationMetadata args))))"

definition IsNotContainInArray :: "jsval \<Rightarrow> jsval \<Rightarrow> decorator" where
  "IsNotContainInArray = (\<lambda>values validationOptions. (\<lambda>object propertyName.
     (let args = \<lparr>type = IS_NOT_CONTAIN_IN_ARRAY, target = constructor object,
                  propertyName = propertyName,
                  value1 = values, value2 = JUndefined,
                  validationOptions = validationOptions\<rparr>
      in addValidationMetadata (new_ValidationMetadata args))))"

definition IsNotEmptyArray :: "jsval \<Rightarrow> decorator" where
  "IsNotEmptyArray = (\<lambda>validationOptions. (\<lambda>object propertyName.
     (let args = \<lparr>type = IS_NOT_EMPTY_ARRAY, target = constructor object,
                  propertyName = propertyName,
                  value1 = JUndefined, value2 = JUndefined,
                  validationOptions = validationOptions\<rparr>
      in addValidationMetadata (new_ValidationMetadata args))))"

definition IsMinSize :: "jsval \<Rightarrow> jsval \<Rightarrow> decorator" where
  "IsMinSize = (\<lambda>min validationOptions. (\<lambda>object propertyName.
     (let args = \<lparr>type = IS_MIN_SIZE, target = constructor object,
                  propertyName = propertyName,
                  value1 = min, value2 = JUndefined,
                  validationOptions = validationOptions\<rparr>
      in addValidationMetadata (new_ValidationMetadata args))))"

definition IsMaxSize :: "jsval \<Rightarrow> jsval \<Rightarrow> decorator" where
  "IsMaxSize = (\<lambda>max validationOptions. (\<lambda>object propertyName.
     (let args = \<lparr>type = IS_MAX_SIZE, target = constructor object,
                  propertyName = propertyName,
                  value1 = max, value2 = JUndefined,
                  validationOptions = validationOptions\<rparr>
      in addValidationMetadata (new_ValidationMetadata args))))"

definition IsAllUnique :: "jsval \<Rightarrow> decorator" where
  "IsAllUnique = (\<lambda>validationOptions. (\<lambda>object propertyName.
     (let args = \<lparr>type = IS_ALL_UNIQUE, target = constructor object,
                  propertyName = propertyName,
                  value1 = JUndefined, value2 = JUndefined,
                  validationOptions = validationOptions\<rparr>
      in addValidationMetadata (new_ValidationMetadata args))))"

section \<open>Calls of the decorators\<close>

text \<open>
  A rule attachment is a call of one of the decorator factories above. Every factory takes
  its rule parameters first and the validation options last. \<^verbatim>\<open>IsMatch\<close> declares two
  signatures, \<^verbatim>\<open>(pattern, validationOptions?)\<close> and
  \<^verbatim>\<open>(pattern, modifiers?, validationOptions?)\<close>, which its body tells apart by the runtime
  type of the second argument; a call of \<^verbatim>\<open>IsMatch\<close> therefore carries the declared types
  in these positions: a string or nothing for the modifiers, an options object or nothing for
  the validation options.
\<close>

definition optionsValue :: "ValidationOptions option \<Rightarrow> jsval" where
  "optionsValue vo = (case vo of None \<Rightarrow> JUndefined | Some ps \<Rightarrow> JObject ps)"

definition stringValue :: "string option \<Rightarrow> jsval" where
  "stringValue s = (case s of None \<Rightarrow> JUndefined | Some cs \<Rightarrow> JString cs)"

datatype (plugins only: code) attachment =
    Validate_call jsval jsval
  | NestedValidation_call jsval
  | IsEqual_call jsval jsval
  | IsNotEqual_call jsval jsval
  | IsEmpty_call jsval
  | IsNotEmpty_call jsval
  | IsIn_call jsval jsval
  | IsNotIn_call jsval jsval
  | IsBoolean_call jsval
  | IsDate_call jsval
  | IsNumber_call jsval
  | IsString_call jsval
  | IsDivisibleBy_call jsval jsval
  | IsDecimal_call jsval
  | IsFloat_call jsval jsval
  | IsPositiveFloat_call jsval jsval
  | IsNegativeFloat_call jsval jsval
  | IsInt_call jsval jsval
  | IsPositiveInt_call jsval jsval
  | IsNegativeInt_call jsval jsval
  | IsGreater_call jsval jsval
  | IsLess_call jsval jsval
  | IsMinDate_call jsval jsval
  | IsMaxDate_call jsval jsval
  | IsMatch_call jsval "ValidationOptions option"
  | IsMatch_modifiers_call jsval "string option" "ValidationOptions option"
  | IsBooleanString_call jsval
  | IsDateString_call jsval
  | IsNumericString_call jsval
  | IsContain_call jsval jsval
  | IsNotContain_call jsval jsval
  | IsAlpha_call jsval
  | IsAlphanumeric_call jsval
  | IsAscii_call jsval
  | IsBase64_call jsval
  | IsByteLength_call jsval jsval jsval
  | IsCreditCard_call jsval
  | IsCurrency_call jsval jsval
  | IsEmail_call jsval jsval
  | IsFQDN_call jsval jsval
  | IsFullWidth_call jsval
  | IsHalfWidth_call jsval
  | IsVariableWidth_call jsval
  | IsHexColor_call jsval
  | IsHexadecimal_call jsval
  | IsIP_call jsval jsval
  | IsISBN_call jsval jsval
  | IsISIN_call jsval
  | IsISO8601_call jsval
  | IsJSON_call jsval
  | IsLength_call jsval jsval jsval
  | IsLowercase_call jsval
  | IsMobilePhone_call jsval jsval
  | IsMongoId_call jsval
  | IsMultibyte_call jsval
  | IsSurrogatePair_call jsval
  | IsUrl_call jsval jsval
  | IsUUID_call jsval jsval
  | IsUppercase_call jsval
  | IsMinLength_call jsval jsval
  | IsMaxLength_call jsval jsval
  | IsContainInArray_call jsval jsval
  | IsNotContainInArray_call jsval jsval
  | IsNotEmptyArray_call jsval
  | IsMinSize_call jsval jsval
  | IsMaxSize_call jsval jsval
  | IsAllUnique_call jsval

primrec attach :: "attachment \<Rightarrow> decorator" where
  "attach (Validate_call x vo) = Validate x vo"
| "attach (NestedValidation_call vo) = NestedValidation vo"
| "attach (IsEqual_call x vo) = IsEqual x vo"
| "attach (IsNotEqual_call x vo) = IsNotEqual x vo"
| "attach (IsEmpty_call vo) = IsEmpty vo"
| "attach (IsNotEmpty_call vo) = IsNotEmpty vo"
| "attach (IsIn_call x vo) = IsIn x vo"
| "attach (IsNotIn_call x vo) = IsNotIn x vo"
| "attach (IsBoolean_call vo) = IsBoolean vo"
| "attach (IsDate_call vo) = IsDate vo"
| "attach (IsNumber_call vo) = IsNumber vo"
| "attach (IsString_call vo) = IsString vo"
| "attach (IsDivisibleBy_call x vo) = IsDivisibleBy x vo"
| "attach (IsDecimal_call vo) = IsDecimal vo"
| "attach (IsFloat_call x vo) = IsFloat x vo"
| "attach (IsPositiveFloat_call x vo) = IsPositiveFloat x vo"
| "attach (IsNegativeFloat_call x vo) = IsNegativeFloat x vo"
| "attach (IsInt_call x vo) = IsInt x vo"
| "attach (IsPositiveInt_call x vo) = IsPositiveInt x vo"
| "attach (IsNegativeInt_call x vo) = IsNegativeInt x vo"
| "attach (IsGreater_call x vo) = IsGreater x vo"
| "attach (IsLess_call x vo) = IsLess x vo"
| "attach (IsMinDate_call x vo) = IsMinDate x vo"
| "attach (IsMaxDate_call x vo) = IsMaxDate x vo"
| "attach (IsMatch_call x o1) = IsMatch x (optionsValue o1) JUndefined"
| "attach (IsMatch_modifiers_call x s o1) = IsMatch x (stringValue s) (optionsValue o1)"
| "attach (IsBooleanString_call vo) = IsBooleanString vo"
| "attach (IsDateString_call vo) = IsDateString vo"
| "attach (IsNumericString_call vo) = IsNumericString vo"
| "attach (IsContain_call x vo) = IsContain x vo"
| "attach (IsNotContain_call x vo) = IsNotContain x vo"
| "attach (IsAlpha_call vo) = IsAlpha vo"
| "attach (IsAlphanumeric_call vo) = IsAlphanumeric vo"
| "attach (IsAscii_call vo) = IsAscii vo"
| "attach (IsBase64_call vo) = IsBase64 vo"
| "attach (IsByteLength_call x y vo) = IsByteLength x y vo"
| "attach (IsCreditCard_call vo) = IsCreditCard vo"
| "attach (IsCurrency_call x vo) = IsCurrency x vo"
| "attach (IsEmail_call x vo) = IsEmail x vo"
| "attach (IsFQDN_call x vo) = IsFQDN x vo"
| "attach (IsFullWidth_call vo) = IsFullWidth vo"
| "attach (IsHalfWidth_call vo) = IsHalfWidth vo"
| "attach (IsVariableWidth_call vo) = IsVariableWidth vo"
| "attach (IsHexColor_call vo) = IsHexColor vo"
| "attach (IsHexadecimal_call vo) = IsHexadecimal vo"
| "attach (IsIP_call x vo) = IsIP x vo"
| "attach (IsISBN_call x vo) = IsISBN x vo"
| "attach (IsISIN_call vo) = IsISIN vo"
| "attach (IsISO8601_call vo) = IsISO8601 vo"
| "attach (IsJSON_call vo) = IsJSON vo"
| "attach (IsLength_call x y vo) = IsLength x y vo"
| "attach (IsLowercase_call vo) = IsLowercase vo"
| "attach (IsMobilePhone_call x vo) = IsMobilePhone x vo"
| "attach (IsMongoId_call vo) = IsMongoId vo"
| "attach (IsMultibyte_call vo) = IsMultibyte vo"
| "attach (IsSurrogatePair_call vo) = IsSurrogatePair vo"
| "attach (IsUrl_call x vo) = IsUrl x vo"
| "attach (IsUUID_call x vo) = IsUUID x vo"
| "attach (IsUppercase_call vo) = IsUppercase vo"
| "attach (IsMinLength_call x vo) = IsMinLength x vo"
| "attach (IsMaxLength_call x vo) = IsMaxLength x vo"
| "attach (IsContainInArray_call x vo) = IsContainInArray x vo"
| "attach (IsNotContainInArray_call x vo) = IsNotContainInArray x vo"
| "attach (IsNotEmptyArray_call vo) = IsNotEmptyArray vo"
| "attach (IsMinSize_call x vo) = IsMinSize x vo"
| "attach (IsMaxSize_call x vo) = IsMaxSize x vo"
| "attach (IsAllUnique_call vo) = IsAllUnique vo"

text \<open>The member of \<^verbatim>\<open>ValidationTypes\<close> that belongs to each decorator.\<close>

primrec kindConstant :: "attachment \<Rightarrow> ValidationTypes" where
  "kindConstant (Validate_call x vo) = CUSTOM_VALIDATION"
| "kindConstant (NestedValidation_call vo) = NESTED_VALIDATION"
| "kindConstant (IsEqual_call x vo) = IS_EQUAL"
| "kindConstant (IsNotEqual_call x vo) = IS_NOT_EQUAL"
| "kindConstant (IsEmpty_call vo) = IS_EMPTY"
| "kindConstant (IsNotEmpty_call vo) = IS_NOT_EMPTY"
| "kindConstant (IsIn_call x vo) = IS_IN"
| "kindConstant (IsNotIn_call x vo) = IS_NOT_IN"
| "kindConstant (IsBoolean_call vo) = IS_BOOLEAN"
| "kindConstant (IsDate_call vo) = IS_DATE"
| "kindConstant (IsNumber_call vo) = IS_NUMBER"
| "kindConstant (IsString_call vo) = IS_STRING"
| "kindConstant (IsDivisibleBy_call x vo) = IS_DIVISIBLE_BY"
| "kindConstant (IsDecimal_call vo) = IS_DECIMAL"
| "kindConstant (IsFloat_call x vo) = IS_FLOAT"
| "kindConstant (IsPositiveFloat_call x vo) = IS_POSITIVE_FLOAT"
| "kindConstant (IsNegativeFloat_call x vo) = IS_NEGATIVE_FLOAT"
| "kindConstant (IsInt_call x vo) = IS_INT"
| "kindConstant (IsPositiveInt_call x vo) = IS_POSITIVE_INT"
| "kindConstant (IsNegativeInt_call x vo) = IS_NEGATIVE_INT"
| "kindConstant (IsGreater_call x vo) = IS_GREATER"
| "kindConstant (IsLess_call x vo) = IS_LESS"
| "kindConstant (IsMinDate_call x vo) = IS_MIN_DATE"
| "kindConstant (IsMaxDate_call x vo) = IS_MAX_DATE"
| "kindConstant (IsMatch_call x o1) = IS_MATCH"
| "kindConstant (IsMatch_modifiers_call x s o1) = IS_MATCH"
| "kindConstant (IsBooleanString_call vo) = IS_BOOLEAN_STRING"
| "kindConstant (IsDateString_call vo) = IS_DATE_STRING"
| "kindConstant (IsNumericString_call vo) = IS_NUMERIC_STRING"
| "kindConstant (IsContain_call x vo) = IS_CONTAIN"
| "kindConstant (IsNotContain_call x vo) = IS_NOT_CONTAIN"
| "kindConstant (IsAlpha_call vo) = IS_ALPHA"
| "kindConstant (IsAlphanumeric_call vo) = IS_ALPHANUMERIC"
| "kindConstant (IsAscii_call vo) = IS_ASCII"
| "kindConstant (IsBase64_call vo) = IS_BASE64"
| "kindConstant (IsByteLength_call x y vo) = IS_BYTE_LENGTH"
| "kindConstant (IsCreditCard_call vo) = IS_CREDIT_CARD"
| "kindConstant (IsCurrency_call x vo) = IS_CURRENCY"
| "kindConstant (IsEmail_call x vo) = IS_EMAIL"
| "kindConstant (IsFQDN_call x vo) = IS_FQDN"
| "kindConstant (IsFullWidth_call vo) = IS_FULL_WIDTH"
| "kindConstant (IsHalfWidth_call vo) = IS_HALF_WIDTH"
| "kindConstant (IsVariableWidth_call vo) = IS_VARIABLE_WIDTH"
| "kindConstant (IsHexColor_call vo) = IS_HEX_COLOR"
| "kindConstant (IsHexadecimal_call vo) = IS_HEXADECIMAL"
| "kindConstant (IsIP_call x vo) = IS_IP"
| "kindConstant (IsISBN_call x vo) = IS_ISBN"
| "kindConstant (IsISIN_call vo) = IS_ISIN"
| "kindConstant (IsISO8601_call vo) = IS_ISO8601"
| "kindConstant (IsJSON_call vo) = IS_JSON"
| "kindConstant (IsLength_call x y vo) = IS_LENGTH"
| "kindConstant (IsLowercase_call vo) = IS_LOWERCASE"
| "kindConstant (IsMobilePhone_call x vo) = IS_MOBILE_PHONE"
| "kindConstant (IsMongoId_call vo) = IS_MONGO_ID"
| "kindConstant (IsMultibyte_call vo) = IS_MULTIBYTE"
| "kindConstant (IsSurrogatePair_call vo) = IS_SURROGATE_PAIR"
| "kindConstant (IsUrl_call x vo) = IS_URL"
| "kindConstant (IsUUID_call x vo) = IS_UUID"
| "kindConstant (IsUppercase_call vo) = IS_UPPERCASE"
| "kindConstant (IsMinLength_call x vo) = MIN_LENGTH"
| "kindConstant (IsMaxLength_call x vo) = MAX_LENGTH"
| "kindConstant (IsContainInArray_call x vo) = IS_CONTAIN_IN_ARRAY"
| "kindConstant (IsNotContainInArray_call x vo) = IS_NOT_CONTAIN_IN_ARRAY"
| "kindConstant (IsNotEmptyArray_call vo) = IS_NOT_EMPTY_ARRAY"
| "kindConstant (IsMinSize_call x vo) = IS_MIN_SIZE"
| "kindConstant (IsMaxSize_call x vo) = IS_MAX_SIZE"
| "kindConstant (IsAllUnique_call vo) = IS_ALL_UNIQUE"

text \<open>
  The rule parameters of a call, in the order of the signature; a parameter that the
  signature does not have is absent.
\<close>

primrec ruleParameters :: "attachment \<Rightarrow> jsval \<times> jsval" where
  "ruleParameters (Validate_call x vo) = (x, JUndefined)"
| "ruleParameters (NestedValidation_call vo) = (JUndefined, JUndefined)"
| "ruleParameters (IsEqual_call x vo) = (x, JUndefined)"
| "ruleParameters (IsNotEqual_call x vo) = (x, JUndefined)"
| "ruleParameters (IsEmpty_call vo) = (JUndefined, JUndefined)"
| "ruleParameters (IsNotEmpty_call vo) = (JUndefined, JUndefined)"
| "ruleParameters (IsIn_call x vo) = (x, JUndefined)"
| "ruleParameters (IsNotIn_call x vo) = (x, JUndefined)"
| "ruleParameters (IsBoolean_call vo) = (JUndefined, JUndefined)"
| "ruleParameters (IsDate_call vo) = (JUndefined, JUndefined)"
| "ruleParameters (IsNumber_call vo) = (JUndefined, JUndefined)"
| "ruleParameters (IsString_call vo) = (JUndefined, JUndefined)"
| "ruleParameters (IsDivisibleBy_call x vo) = (x, JUndefined)"
| "ruleParameters (IsDecimal_call vo) = (JUndefined, JUndefined)"
| "ruleParameters (IsFloat_call x vo) = (x, JUndefined)"
| "ruleParameters (IsPositiveFloat_call x vo) = (x, JUndefined)"
| "ruleParameters (IsNegativeFloat_call x vo) = (x, JUndefined)"
| "ruleParameters (IsInt_call x vo) = (x, JUndefined)"
| "ruleParameters (IsPositiveInt_call x vo) = (x, JUndefined)"
| "ruleParameters (IsNegativeInt_call x vo) = (x, JUndefined)"
| "ruleParameters (IsGreater_call x vo) = (x, JUndefined)"
| "ruleParameters (IsLess_call x vo) = (x, JUndefined)"
| "ruleParameters (IsMinDate_call x vo) = (x, JUndefined)"
| "ruleParameters (IsMaxDate_call x vo) = (x, JUndefined)"
| "ruleParameters (IsMatch_call x o1) = (x, JUndefined)"
| "ruleParameters (IsMatch_modifiers_call x s o1) = (x, stringValue s)"
| "ruleParameters (IsBooleanString_call vo) = (JUndefined, JUndefined)"
| "ruleParameters (IsDateString_call vo) = (JUndefined, JUndefined)"
| "ruleParameters (IsNumericString_call vo) = (JUndefined, JUndefined)"
| "ruleParameters (IsContain_call x vo) = (x, JUndefined)"
| "ruleParameters (IsNotContain_call x vo) = (x, JUndefined)"
| "ruleParameters (IsAlpha_call vo) = (JUndefined, JUndefined)"
| "ruleParameters (IsAlphanumeric_call vo) = (JUndefined, JUndefined)"
| "ruleParameters (IsAscii_call vo) = (JUndefined, JUndefined)"
| "ruleParameters (IsBase64_call vo) = (JUndefined, JUndefined)"
| "ruleParameters (IsByteLength_call x y vo) = (x, y)"
| "ruleParameters (IsCreditCard_call vo) = (JUndefined, JUndefined)"
| "ruleParameters (IsCurrency_call x vo) = (x, JUndefined)"
| "ruleParameters (IsEmail_call x vo) = (x, JUndefined)"
| "ruleParameters (IsFQDN_call x vo) = (x, JUndefined)"
| "ruleParameters (IsFullWidth_call vo) = (JUndefined, JUndefined)"
| "ruleParameters (IsHalfWidth_call vo) = (JUndefined, JUndefined)"
| "ruleParameters (IsVariableWidth_call vo) = (JUndefined, JUndefined)"
| "ruleParameters (IsHexColor_call vo) = (JUndefined, JUndefined)"
| "ruleParameters (IsHexadecimal_call vo) = (JUndefined, JUndefined)"
| "ruleParameters (IsIP_call x vo) = (x, JUndefined)"
| "ruleParameters (IsISBN_call x vo) = (x, JUndefined)"
| "ruleParameters (IsISIN_call vo) = (JUndefined, JUndefined)"
| "ruleParameters (IsISO8601_call vo) = (JUndefined, JUndefined)"
| "ruleParameters (IsJSON_call vo) = (JUndefined, JUndefined)"
| "ruleParameters (IsLength_call x y vo) = (x, y)"
| "ruleParameters (IsLowercase_call vo) = (JUndefined, JUndefined)"
| "ruleParameters (IsMobilePhone_call x vo) = (x, JUndefined)"
| "ruleParameters (IsMongoId_call vo) = (JUndefined, JUndefined)"
| "ruleParameters (IsMultibyte_call vo) = (JUndefined, JUndefined)"
| "ruleParameters (IsSurrogatePair_call vo) = (JUndefined, JUndefined)"
| "ruleParameters (IsUrl_call x vo) = (x, JUndefined)"
| "ruleParameters (IsUUID_call x vo) = (x, JUndefined)"
| "ruleParameters (IsUppercase_call vo) = (JUndefined, JUndefined)"
| "ruleParameters (IsMinLength_call x vo) = (x, JUndefined)"
| "ruleParameters (IsMaxLength_call x vo) = (x, JUndefined)"
| "ruleParameters (IsContainInArray_call x vo) = (x, JUndefined)"
| "ruleParameters (IsNotContainInArray_call x vo) = (x, JUndefined)"
| "ruleParameters (IsNotEmptyArray_call vo) = (JUndefined, JUndefined)"
| "ruleParameters (IsMinSize_call x vo) = (x, JUndefined)"
| "ruleParameters (IsMaxSize_call x vo) = (x, JUndefined)"
| "ruleParameters (IsAllUnique_call vo) = (JUndefined, JUndefined)"

text \<open>The validation options of a call: its final argument.\<close>

primrec optionsArgument :: "attachment \<Rightarrow> jsval" where
  "optionsArgument (Validate_call x vo) = vo"
| "optionsArgument (NestedValidation_call vo) = vo"
| "optionsArgument (IsEqual_call x vo) = vo"
| "optionsArgument (IsNotEqual_call x vo) = vo"
| "optionsArgument (IsEmpty_call vo) = vo"
| "optionsArgument (IsNotEmpty_call vo) = vo"
| "optionsArgument (IsIn_call x vo) = vo"
| "optionsArgument (IsNotIn_call x vo) = vo"
| "optionsArgument (IsBoolean_call vo) = vo"
| "optionsArgument (IsDate_call vo) = vo"
| "optionsArgument (IsNumber_call vo) = vo"
| "optionsArgument (IsString_call vo) = vo"
| "optionsArgument (IsDivisibleBy_call x vo) = vo"
| "optionsArgument (IsDecimal_call vo) = vo"
| "optionsArgument (IsFloat_call x vo) = vo"
| "optionsArgument (IsPositiveFloat_call x vo) = vo"
| "optionsArgument (IsNegativeFloat_call x vo) = vo"
| "optionsArgument (IsInt_call x vo) = vo"
| "optionsArgument (IsPositiveInt_call x vo) = vo"
| "optionsArgument (IsNegativeInt_call x vo) = vo"
| "optionsArgument (IsGreater_call x vo) = vo"
| "optionsArgument (IsLess_call x vo) = vo"
| "optionsArgument (IsMinDate_call x vo) = vo"
| "optionsArgument (IsMaxDate_call x vo) = vo"
| "optionsArgument (IsMatch_call x o1) = optionsValue o1"
| "optionsArgument (IsMatch_modifiers_call x s o1) = optionsValue o1"
| "optionsArgument (IsBooleanString_call vo) = vo"
| "optionsArgument (IsDateString_call vo) = vo"
| "optionsArgument (IsNumericString_call vo) = vo"
| "optionsArgument (IsContain_call x vo) = vo"
| "optionsArgument (IsNotContain_call x vo) = vo"
| "optionsArgument (IsAlpha_call vo) = vo"
| "optionsArgument (IsAlphanumeric_call vo) = vo"
| "optionsArgument (IsAscii_call vo) = vo"
| "optionsArgument (IsBase64_call vo) = vo"
| "optionsArgument (IsByteLength_call x y vo) = vo"
| "optionsArgument (IsCreditCard_call vo) = vo"
| "optionsArgument (IsCurrency_call x vo) = vo"
| "optionsArgument (IsEmail_call x vo) = vo"
| "optionsArgument (IsFQDN_call x vo) = vo"
| "optionsArgument (IsFullWidth_call vo) = vo"
| "optionsArgument (IsHalfWidth_call vo) = vo"
| "optionsArgument (IsVariableWidth_call vo) = vo"
| "optionsArgument (IsHexColor_call vo) = vo"
| "optionsArgument (IsHexadecimal_call vo) = vo"
| "optionsArgument (IsIP_call x vo) = vo"
| "optionsArgument (IsISBN_call x vo) = vo"
| "optionsArgument (IsISIN_call vo) = vo"
| "optionsArgument (IsISO8601_call vo) = vo"
| "optionsArgument (IsJSON_call vo) = vo"
| "optionsArgument (IsLength_call x y vo) = vo"
| "optionsArgument (IsLowercase_call vo) = vo"
| "optionsArgument (IsMobilePhone_call x vo) = vo"
| "optionsArgument (IsMongoId_call vo) = vo"
| "optionsArgument (IsMultibyte_call vo) = vo"
| "optionsArgument (IsSurrogatePair_call vo) = vo"
| "optionsArgument (IsUrl_call x vo) = vo"
| "optionsArgument (IsUUID_call x vo) = vo"
| "optionsArgument (IsUppercase_call vo) = vo"
| "optionsArgument (IsMinLength_call x vo) = vo"
| "optionsArgument (IsMaxLength_call x vo) = vo"
| "optionsArgument (IsContainInArray_call x vo) = vo"
| "optionsArgument (IsNotContainInArray_call x vo) = vo"
| "optionsArgument (IsNotEmptyArray_call vo) = vo"
| "optionsArgument (IsMinSize_call x vo) = vo"
| "optionsArgument (IsMaxSize_call x vo) = vo"
| "optionsArgument (IsAllUnique_call vo) = vo"

text \<open>The name of the decorator that a call calls.\<close>

primrec decoratorName :: "attachment \<Rightarrow> string" where
  "decoratorName (Validate_call x vo) = ''Validate''"
| "decoratorName (NestedValidation_call vo) = ''NestedValidation''"
| "decoratorName (IsEqual_call x vo) = ''IsEqual''"
| "decoratorName (IsNotEqual_call x vo) = ''IsNotEqual''"
| "decoratorName (IsEmpty_call vo) = ''IsEmpty''"
| "decoratorName (IsNotEmpty_call vo) = ''IsNotEmpty''"
| "decoratorName (IsIn_call x vo) = ''IsIn''"
| "decoratorName (IsNotIn_call x vo) = ''IsNotIn''"
| "decoratorName (IsBoolean_call vo) = ''IsBoolean''"
| "decoratorName (IsDate_call vo) = ''IsDate''"
| "decoratorName (IsNumber_call vo) = ''IsNumber''"
| "decoratorName (IsString_call vo) = ''IsString''"
| "decoratorName (IsDivisibleBy_call x vo) = ''IsDivisibleBy''"
| "decoratorName (IsDecimal_call vo) = ''IsDecimal''"
| "decoratorName (IsFloat_call x vo) = ''IsFloat''"
| "decoratorName (IsPositiveFloat_call x vo) = ''IsPositiveFloat''"
| "decoratorName (IsNegativeFloat_call x vo) = ''IsNegativeFloat''"
| "decoratorName (IsInt_call x vo) = ''IsInt''"
| "decoratorName (IsPositiveInt_call x vo) = ''IsPositiveInt''"
| "decoratorName (IsNegativeInt_call x vo) = ''IsNegativeInt''"
| "decoratorName (IsGreater_call x vo) = ''IsGreater''"
| "decoratorName (IsLess_call x vo) = ''IsLess''"
| "decoratorName (IsMinDate_call x vo) = ''IsMinDate''"
| "decoratorName (IsMaxDate_call x vo) = ''IsMaxDate''"
| "decoratorName (IsMatch_call x o1) = ''IsMatch''"
| "decoratorName (IsMatch_modifiers_call x s o1) = ''IsMatch''"
| "decoratorName (IsBooleanString_call vo) = ''IsBooleanString''"
| "decoratorName (IsDateString_call vo) = ''IsDateString''"
| "decoratorName (IsNumericString_call vo) = ''IsNumericString''"
| "decoratorName (IsContain_call x vo) = ''IsContain''"
| "decoratorName (IsNotContain_call x vo) = ''IsNotContain''"
| "decoratorName (IsAlpha_call vo) = ''IsAlpha''"
| "decoratorName (IsAlphanumeric_call vo) = ''IsAlphanumeric''"
| "decoratorName (IsAscii_call vo) = ''IsAscii''"
| "decoratorName (IsBase64_call vo) = ''IsBase64''"
| "decoratorName (IsByteLength_call x y vo) = ''IsByteLength''"
| "decoratorName (IsCreditCard_call vo) = ''IsCreditCard''"
| "decoratorName (IsCurrency_call x vo) = ''IsCurrency''"
| "decoratorName (IsEmail_call x vo) = ''IsEmail''"
| "decoratorName (IsFQDN_call x vo) = ''IsFQDN''"
| "decoratorName (IsFullWidth_call vo) = ''IsFullWidth''"
| "decoratorName (IsHalfWidth_call vo) = ''IsHalfWidth''"
| "decoratorName (IsVariableWidth_call vo) = ''IsVariableWidth''"
| "decoratorName (IsHexColor_call vo) = ''IsHexColor''"
| "decoratorName (IsHexadecimal_call vo) = ''IsHexadecimal''"
| "decoratorName (IsIP_call x vo) = ''IsIP''"
| "decoratorName (IsISBN_call x vo) = ''IsISBN''"
| "decoratorName (IsISIN_call vo) = ''IsISIN''"
| "decoratorName (IsISO8601_call vo) = ''IsISO8601''"
| "decoratorName (IsJSON_call vo) = ''IsJSON''"
| "decoratorName (IsLength_call x y vo) = ''IsLength''"
| "decoratorName (IsLowercase_call vo) = ''IsLowercase''"
| "decoratorName (IsMobilePhone_call x vo) = ''IsMobilePhone''"
| "decoratorName (IsMongoId_call vo) = ''IsMongoId''"
| "decoratorName (IsMultibyte_call vo) = ''IsMultibyte''"
| "decoratorName (IsSurrogatePair_call vo) = ''IsSurrogatePair''"
| "decoratorName (IsUrl_call x vo) = ''IsUrl''"
| "decoratorName (IsUUID_call x vo) = ''IsUUID''"
| "decoratorName (IsUppercase_call vo) = ''IsUppercase''"
| "decoratorName (IsMinLength_call x vo) = ''IsMinLength''"
| "decoratorName (IsMaxLength_call x vo) = ''IsMaxLength''"
| "decoratorName (IsContainInArray_call x vo) = ''IsContainInArray''"
| "decoratorName (IsNotContainInArray_call x vo) = ''IsNotContainInArray''"
| "decoratorName (IsNotEmptyArray_call vo) = ''IsNotEmptyArray''"
| "decoratorName (IsMinSize_call x vo) = ''IsMinSize''"
| "decoratorName (IsMaxSize_call x vo) = ''IsMaxSize''"
| "decoratorName (IsAllUnique_call vo) = ''IsAllUnique''"

text \<open>The decorator that names a member of \<^verbatim>\<open>ValidationTypes\<close>.\<close>

primrec decoratorOfKind :: "ValidationTypes \<Rightarrow> string" where
  "decoratorOfKind CUSTOM_VALIDATION = ''Validate''"
| "decoratorOfKind NESTED_VALIDATION = ''NestedValidation''"
| "decoratorOfKind IS_EQUAL = ''IsEqual''"
| "decoratorOfKind IS_NOT_EQUAL = ''IsNotEqual''"
| "decoratorOfKind IS_EMPTY = ''IsEmpty''"
| "decoratorOfKind IS_NOT_EMPTY = ''IsNotEmpty''"
| "decoratorOfKind IS_IN = ''IsIn''"
| "decoratorOfKind IS_NOT_IN = ''IsNotIn''"
| "decoratorOfKind IS_BOOLEAN = ''IsBoolean''"
| "decoratorOfKind IS_DATE = ''IsDate''"
| "decoratorOfKind IS_NUMBER = ''IsNumber''"
| "decoratorOfKind IS_STRING = ''IsString''"
| "decoratorOfKind IS_DIVISIBLE_BY = ''IsDivisibleBy''"
| "decoratorOfKind IS_DECIMAL = ''IsDecimal''"
| "decoratorOfKind IS_FLOAT = ''IsFloat''"
| "decoratorOfKind IS_POSITIVE_FLOAT = ''IsPositiveFloat''"
| "decoratorOfKind IS_NEGATIVE_FLOAT = ''IsNegativeFloat''"
| "decoratorOfKind IS_INT = ''IsInt''"
| "decoratorOfKind IS_POSITIVE_INT = ''IsPositiveInt''"
| "decoratorOfKind IS_NEGATIVE_INT = ''IsNegativeInt''"
| "decoratorOfKind IS_GREATER = ''IsGreater''"
| "decoratorOfKind IS_LESS = ''IsLess''"
| "decoratorOfKind IS_MIN_DATE = ''IsMinDate''"
| "decoratorOfKind IS_MAX_DATE = ''IsMaxDate''"
| "decoratorOfKind IS_MATCH = ''IsMatch''"
| "decoratorOfKind IS_BOOLEAN_STRING = ''IsBooleanString''"
| "decoratorOfKind IS_DATE_STRING = ''IsDateString''"
| "decoratorOfKind IS_NUMERIC_STRING = ''IsNumericString''"
| "decoratorOfKind IS_CONTAIN = ''IsContain''"
| "decoratorOfKind IS_NOT_CONTAIN = ''IsNotContain''"
| "decoratorOfKind IS_ALPHA = ''IsAlpha''"
| "decoratorOfKind IS_ALPHANUMERIC = ''IsAlphanumeric''"
| "decoratorOfKind IS_ASCII = ''IsAscii''"
| "decoratorOfKind IS_BASE64 = ''IsBase64''"
| "decoratorOfKind IS_BYTE_LENGTH = ''IsByteLength''"
| "decoratorOfKind IS_CREDIT_CARD = ''IsCreditCard''"
| "decoratorOfKind IS_CURRENCY = ''IsCurrency''"
| "decoratorOfKind IS_EMAIL = ''IsEmail''"
| "decoratorOfKind IS_FQDN = ''IsFQDN''"
| "decoratorOfKind IS_FULL_WIDTH = ''IsFullWidth''"
| "decoratorOfKind IS_HALF_WIDTH = ''IsHalfWidth''"
| "decoratorOfKind IS_VARIABLE_WIDTH = ''IsVariableWidth''"
| "decoratorOfKind IS_HEX_COLOR = ''IsHexColor''"
| "decoratorOfKind IS_HEXADECIMAL = ''IsHexadecimal''"
| "decoratorOfKind IS_IP = ''IsIP''"
| "decoratorOfKind IS_ISBN = ''IsISBN''"
| "decoratorOfKind IS_ISIN = ''IsISIN''"
| "decoratorOfKind IS_ISO8601 = ''IsISO8601''"
| "decoratorOfKind IS_JSON = ''IsJSON''"
| "decoratorOfKind IS_LENGTH = ''IsLength''"
| "decoratorOfKind IS_LOWERCASE = ''IsLowercase''"
| "decoratorOfKind IS_MOBILE_PHONE = ''IsMobilePhone''"
| "decoratorOfKind IS_MONGO_ID = ''IsMongoId''"
| "decoratorOfKind IS_MULTIBYTE = ''IsMultibyte''"
| "decoratorOfKind IS_SURROGATE_PAIR = ''IsSurrogatePair''"
| "decoratorOfKind IS_URL = ''IsUrl''"
| "decoratorOfKind IS_UUID = ''IsUUID''"
| "decoratorOfKind IS_UPPERCASE = ''IsUppercase''"
| "decoratorOfKind MIN_LENGTH = ''IsMinLength''"
| "decoratorOfKind MAX_LENGTH = ''IsMaxLength''"
| "decoratorOfKind IS_CONTAIN_IN_ARRAY = ''IsContainInArray''"
| "decoratorOfKind IS_NOT_CONTAIN_IN_ARRAY = ''IsNotContainInArray''"
| "decoratorOfKind IS_NOT_EMPTY_ARRAY = ''IsNotEmptyArray''"
| "decoratorOfKind IS_MIN_SIZE = ''IsMinSize''"
| "decoratorOfKind IS_MAX_SIZE = ''IsMaxSize''"
| "decoratorOfKind IS_ALL_UNIQUE = ''IsAllUnique''"

text \<open>The Rule Descriptor that a call applied to a prototype and a property name stands for.\<close>

definition descriptorOf :: "attachment \<Rightarrow> Object \<Rightarrow> string \<Rightarrow> ValidationMetadata" where
  "descriptorOf a obj p =
     \<lparr>kind = kindConstant a, ownerType = constructor obj, fieldName = p,
      arg1 = fst (ruleParameters a), arg2 = snd (ruleParameters a),
      options = optionsArgument a\<rparr>"

text \<open>
  A sequence of rule attachments, applied in order; a fault would end the sequence as the
  exception would.
\<close>

fun attachAll ::
  "(attachment \<times> Object \<times> string) list \<Rightarrow> MetadataStorage \<Rightarrow> ConfigurationFault + MetadataStorage" where
  "attachAll [] st = Inr st"
| "attachAll ((a, obj, p) # rest) st =
     (case attach a obj p st of Inl e \<Rightarrow> Inl e | Inr st' \<Rightarrow> attachAll rest st')"

definition descriptorsOf ::
  "(attachment \<times> Object \<times> string) list \<Rightarrow> ValidationMetadata list" where
  "descriptorsOf apps = map (\<lambda>(a, obj, p). descriptorOf a obj p) apps"

text \<open>
  An example run: the class \<open>IsEven\<close> is registered as a custom constraint under the name
  \<open>isEven\<close>, then attached with \<^verbatim>\<open>Validate\<close> to the property \<open>value\<close> of the class
  \<open>Counter\<close>. Both registrations carry a name, so the behaviour of the storage on an
  entry without a name plays no part; the example takes a storage that accepts such an
  entry and stays as it is.
\<close>

definition customRuleExample :: "ConfigurationFault + MetadataStorage" where
  "customRuleExample =
     (case ValidatorConstraint (\<lambda>t. Inr) (Some ''isEven'') (Function ''IsEven'') emptyStorage of
        Inl e \<Rightarrow> Inl e
      | Inr st \<Rightarrow>
          Validate (JFunction (Function ''IsEven'')) JUndefined
            \<lparr>constructor = Function ''Counter''\<rparr> ''value'' st)"

section \<open>Properties of the storage\<close>

lemma registry_register:
  "registry (register d st) t = (if t = ownerType d then registry st t @ [d] else registry st t)"
  by (simp add: register_def)

lemma catalog_register: "catalog (register d st) = catalog st"
  by (simp add: register_def)

lemma find_after_removal: "find P (filter (\<lambda>e. \<not> P e) xs @ ys) = find P ys"
  by (induction xs) simp_all

lemma lookup_after_override:
  "lookupConstraint
     (st\<lparr>catalog := filter (\<lambda>e. name e \<noteq> Some n) (catalog st) @ [\<lparr>evaluator = t, name = Some n\<rparr>]\<rparr>) n
   = Some t"
  by (simp add: lookupConstraint_def find_after_removal)

section \<open>Properties of the decorators\<close>

lemmas decorator_defs =
  Validate_def NestedValidation_def IsEqual_def IsNotEqual_def IsEmpty_def
  IsNotEmpty_def IsIn_def IsNotIn_def IsBoolean_def IsDate_def
  IsNumber_def IsString_def IsDivisibleBy_def IsDecimal_def IsFloat_def
  IsPositiveFloat_def IsNegativeFloat_def IsInt_def IsPositiveInt_def IsNegativeInt_def
  IsGreater_def IsLess_def IsMinDate_def IsMaxDate_def IsBooleanString_def
  IsDateString_def IsNumericString_def IsContain_def IsNotContain_def IsAlpha_def
  IsAlphanumeric_def IsAscii_def IsBase64_def IsByteLength_def IsCreditCard_def
  IsCurrency_def IsEmail_def IsFQDN_def IsFullWidth_def IsHalfWidth_def
  IsVariableWidth_def IsHexColor_def IsHexadecimal_def IsIP_def IsISBN_def
  IsISIN_def IsISO8601_def IsJSON_def IsLength_def IsLowercase_def
  IsMobilePhone_def IsMongoId_def IsMultibyte_def IsSurrogatePair_def IsUrl_def
  IsUUID_def IsUppercase_def IsMinLength_def IsMaxLength_def IsContainInArray_def
  IsNotContainInArray_def IsNotEmptyArray_def IsMinSize_def IsMaxSize_def IsAllUnique_def

lemma truthy_object: "instanceof_Object v \<Longrightarrow> truthy v"
  by (cases v) simp_all

lemma IsMatch_options_only:
  "IsMatch pattern (optionsValue o1) JUndefined obj p st =
     Inr (register \<lparr>kind = IS_MATCH, ownerType = constructor obj, fieldName = p,
                    arg1 = pattern, arg2 = JUndefined, options = optionsValue o1\<rparr> st)"
  by (cases o1)
     (simp_all add: IsMatch_def optionsValue_def addValidationMetadata_def
        new_ValidationMetadata_def)

lemma IsMatch_modifiers:
  "IsMatch pattern (stringValue s) vo obj p st =
     Inr (register \<lparr>kind = IS_MATCH, ownerType = constructor obj, fieldName = p,
                    arg1 = pattern, arg2 = stringValue s, options = vo\<rparr> st)"
  by (cases s)
     (simp_all add: IsMatch_def stringValue_def addValidationMetadata_def
        new_ValidationMetadata_def)

lemma IsMatch_registers:
  "IsMatch pattern m vo obj p st =
     Inr (register \<lparr>kind = IS_MATCH, ownerType = constructor obj, fieldName = p,
                    arg1 = pattern,
                    arg2 = (if instanceof_Object m \<and> \<not> truthy vo then JUndefined else m),
                    options = (if instanceof_Object m \<and> \<not> truthy vo then m else vo)\<rparr> st)"
  by (auto simp: IsMatch_def truthy_object addValidationMetadata_def new_ValidationMetadata_def)

text \<open>
  Every call registers exactly the descriptor that its name, its rule parameters and its
  options stand for: one case for each of the decorators.
\<close>

lemma attach_registers: "attach a obj p st = Inr (register (descriptorOf a obj p) st)"
  by (cases a)
     (simp_all add: descriptorOf_def IsMatch_options_only IsMatch_modifiers
        decorator_defs addValidationMetadata_def new_ValidationMetadata_def)

text \<open>No two decorators share a member of \<^verbatim>\<open>ValidationTypes\<close>.\<close>

lemma kind_determines_decorator: "decoratorOfKind (kindConstant a) = decoratorName a"
  by (cases a) simp_all

lemma ownerType_descriptorOf: "ownerType (descriptorOf a obj p) = constructor obj"
  by (simp add: descriptorOf_def)

lemma attach_appends:
  "registry (register (descriptorOf a obj p) st) (constructor obj) =
     registry st (constructor obj) @ [descriptorOf a obj p]"
  by (simp add: registry_register ownerType_descriptorOf)

lemma attachAll_registers:
  "\<exists>st'. attachAll apps st = Inr st'
     \<and> (\<forall>t. registry st' t = registry st t @ filter (\<lambda>d. ownerType d = t) (descriptorsOf apps))
     \<and> catalog st' = catalog st"
proof (induction apps arbitrary: st)
  case Nil
  show ?case by (simp add: descriptorsOf_def)
next
  case (Cons x rest)
  obtain a obj p where x: "x = (a, obj, p)" by (cases x)
  let ?d = "descriptorOf a obj p"
  from Cons.IH [of "register ?d st"] obtain st' where
    run: "attachAll rest (register ?d st) = Inr st'" and
    reg: "\<And>t. registry st' t =
            registry (register ?d st) t @ filter (\<lambda>d. ownerType d = t) (descriptorsOf rest)" and
    cat: "catalog st' = catalog (register ?d st)"
    by blast
  have "attachAll (x # rest) st = Inr st'"
    by (simp add: x attach_registers run)
  moreover have "registry st' t =
      registry st t @ filter (\<lambda>d. ownerType d = t) (descriptorsOf (x # rest))" for t
    by (simp add: reg registry_register x descriptorsOf_def)
  moreover have "catalog st' = catalog st"
    by (simp add: cat catalog_register)
  ultimately show ?case by blast
qed

lemma registry_emptyStorage: "registry emptyStorage t = []"
  by (simp add: emptyStorage_def)

lemma catalog_emptyStorage: "catalog emptyStorage = []"
  by (simp add: emptyStorage_def)

section \<open>The claims\<close>

text \<open>
  C1: every rule attachment applied to a prototype and a property name succeeds and appends
  one descriptor to the sequence of the prototype's constructor; the owner type of that
  descriptor is the constructor, its field name is the property name, and its kind is the
  member of \<^verbatim>\<open>ValidationTypes\<close> that belongs to the decorator, a member that no other
  decorator uses.
\<close>

theorem attach_owner_field_kind:
  "\<exists>d st'. attach a obj p st = Inr st'
     \<and> registry st' (constructor obj) = registry st (constructor obj) @ [d]
     \<and> ownerType d = constructor obj \<and> fieldName d = p \<and> kind d = kindConstant a
     \<and> decoratorOfKind (kind d) = decoratorName a"
proof -
  let ?d = "descriptorOf a obj p"
  have "attach a obj p st = Inr (register ?d st)"
    by (rule attach_registers)
  moreover have "ownerType ?d = constructor obj \<and> fieldName ?d = p \<and> kind ?d = kindConstant a
      \<and> decoratorOfKind (kind ?d) = decoratorName a"
    by (simp add: descriptorOf_def kind_determines_decorator)
  ultimately show ?thesis
    using attach_appends [of a obj p st] by blast
qed

theorem attach_owner_field_kind_witness:
  "\<exists>d st'. attach (IsEqual_call (JString ''admin'') JUndefined)
              \<lparr>constructor = Function ''User''\<rparr> ''role'' emptyStorage = Inr st'
     \<and> registry st' (Function ''User'') = [d]
     \<and> ownerType d = Function ''User'' \<and> fieldName d = ''role'' \<and> kind d = IS_EQUAL"
proof -
  from attach_owner_field_kind
    [of "IsEqual_call (JString ''admin'') JUndefined" "\<lparr>constructor = Function ''User''\<rparr>"
        "''role''" emptyStorage]
  obtain d st' where
    "attach (IsEqual_call (JString ''admin'') JUndefined)
       \<lparr>constructor = Function ''User''\<rparr> ''role'' emptyStorage = Inr st'" and
    "registry st' (Function ''User'') = [d]" and
    "ownerType d = Function ''User''" and "fieldName d = ''role''" and "kind d = IS_EQUAL"
    by (auto simp: registry_emptyStorage)
  then show ?thesis
    by (intro exI [of _ d] exI [of _ st'] conjI)
qed

text \<open>
  C2: a single rule attachment appends exactly one descriptor to the sequence of its owner
  type and leaves every other sequence and the catalog as they were; a sequence of rule
  attachments succeeds and leaves, for every owner type, the descriptors registered before
  followed by the descriptors of the attachments for that type, one for each attachment, in
  the order of application.
\<close>

theorem attachAll_appends_in_order:
  "(\<exists>st'. attach a obj p st = Inr st'
      \<and> registry st' =
          (registry st)(constructor obj := registry st (constructor obj) @ [descriptorOf a obj p])
      \<and> catalog st' = catalog st)
   \<and> (\<exists>st'. attachAll apps st = Inr st'
      \<and> (\<forall>t. registry st' t =
              registry st t @ filter (\<lambda>d. ownerType d = t) (descriptorsOf apps))
      \<and> catalog st' = catalog st)
   \<and> length (descriptorsOf apps) = length apps"
proof -
  have "registry (register (descriptorOf a obj p) st) =
      (registry st)(constructor obj := registry st (constructor obj) @ [descriptorOf a obj p])"
    by (simp add: register_def ownerType_descriptorOf)
  then have "\<exists>st'. attach a obj p st = Inr st'
      \<and> registry st' =
          (registry st)(constructor obj := registry st (constructor obj) @ [descriptorOf a obj p])
      \<and> catalog st' = catalog st"
    by (simp add: attach_registers catalog_register)
  moreover have "length (descriptorsOf apps) = length apps"
    by (simp add: descriptorsOf_def)
  ultimately show ?thesis
    using attachAll_registers [of apps st] by blast
qed

theorem attachAll_appends_in_order_witness:
  "\<exists>st'. attachAll
       [(IsNotEmpty_call JUndefined, \<lparr>constructor = Function ''User''\<rparr>, ''name''),
        (IsInt_call JUndefined JUndefined, \<lparr>constructor = Function ''Post''\<rparr>, ''rating''),
        (IsEmail_call JUndefined JUndefined, \<lparr>constructor = Function ''User''\<rparr>, ''email'')]
       emptyStorage = Inr st'
     \<and> map kind (registry st' (Function ''User'')) = [IS_NOT_EMPTY, IS_EMAIL]
     \<and> map fieldName (registry st' (Function ''User'')) = [''name'', ''email'']
     \<and> map kind (registry st' (Function ''Post'')) = [IS_INT]"
proof -
  let ?apps =
    "[(IsNotEmpty_call JUndefined, \<lparr>constructor = Function ''User''\<rparr>, ''name''),
      (IsInt_call JUndefined JUndefined, \<lparr>constructor = Function ''Post''\<rparr>, ''rating''),
      (IsEmail_call JUndefined JUndefined, \<lparr>constructor = Function ''User''\<rparr>, ''email'')]"
  from attachAll_appends_in_order [of _ _ _ emptyStorage ?apps]
  obtain st' where run: "attachAll ?apps emptyStorage = Inr st'"
    and reg: "\<And>t. registry st' t =
      registry emptyStorage t @ filter (\<lambda>d. ownerType d = t) (descriptorsOf ?apps)"
    by blast
  have "map kind (registry st' (Function ''User'')) = [IS_NOT_EMPTY, IS_EMAIL]"
    and "map fieldName (registry st' (Function ''User'')) = [''name'', ''email'']"
    and "map kind (registry st' (Function ''Post'')) = [IS_INT]"
    by (simp_all add: reg registry_emptyStorage descriptorsOf_def descriptorOf_def)
  with run show ?thesis by (intro exI [of _ st'] conjI)
qed

text \<open>
  C3: two rule attachments applied one after the other to the same prototype and property
  are both accepted, and the owner type's sequence grows by their two descriptors, in the
  order of application. This holds of any two calls, so of two calls of the same decorator,
  with the same parameters or with different ones.
\<close>

theorem duplicate_attachments_both_kept:
  "\<exists>st'. attachAll [(a1, obj, p), (a2, obj, p)] st = Inr st'
     \<and> registry st' (constructor obj) =
         registry st (constructor obj) @ [descriptorOf a1 obj p, descriptorOf a2 obj p]
     \<and> length (registry st' (constructor obj)) = length (registry st (constructor obj)) + 2"
proof -
  from attachAll_registers [of "[(a1, obj, p), (a2, obj, p)]" st]
  obtain st' where run: "attachAll [(a1, obj, p), (a2, obj, p)] st = Inr st'"
    and reg: "\<And>t. registry st' t =
      registry st t @ filter (\<lambda>d. ownerType d = t) (descriptorsOf [(a1, obj, p), (a2, obj, p)])"
    by blast
  have "registry st' (constructor obj) =
      registry st (constructor obj) @ [descriptorOf a1 obj p, descriptorOf a2 obj p]"
    by (simp add: reg descriptorsOf_def ownerType_descriptorOf)
  with run show ?thesis by simp
qed

theorem duplicate_attachments_both_kept_witness:
  "(\<exists>st'. attachAll
        [(IsLength_call (JNumber (Finite 1)) (JNumber (Finite 5)) JUndefined,
          \<lparr>constructor = Function ''User''\<rparr>, ''name''),
         (IsLength_call (JNumber (Finite 3)) (JNumber (Finite 10)) JUndefined,
          \<lparr>constructor = Function ''User''\<rparr>, ''name'')]
        emptyStorage = Inr st'
      \<and> registry st' (Function ''User'') =
          [\<lparr>kind = IS_LENGTH, ownerType = Function ''User'', fieldName = ''name'',
            arg1 = JNumber (Finite 1), arg2 = JNumber (Finite 5), options = JUndefined\<rparr>,
           \<lparr>kind = IS_LENGTH, ownerType = Function ''User'', fieldName = ''name'',
            arg1 = JNumber (Finite 3), arg2 = JNumber (Finite 10), options = JUndefined\<rparr>])
   \<and> (\<exists>st'. attachAll
        [(IsEqual_call (JString ''x'') JUndefined, \<lparr>constructor = Function ''User''\<rparr>, ''name''),
         (IsEqual_call (JString ''x'') JUndefined, \<lparr>constructor = Function ''User''\<rparr>, ''name'')]
        emptyStorage = Inr st'
      \<and> registry st' (Function ''User'') =
          [\<lparr>kind = IS_EQUAL, ownerType = Function ''User'', fieldName = ''name'',
            arg1 = JString ''x'', arg2 = JUndefined, options = JUndefined\<rparr>,
           \<lparr>kind = IS_EQUAL, ownerType = Function ''User'', fieldName = ''name'',
            arg1 = JString ''x'', arg2 = JUndefined, options = JUndefined\<rparr>])"
proof -
  let ?user = "\<lparr>constructor = Function ''User''\<rparr>"
  let ?short = "IsLength_call (JNumber (Finite 1)) (JNumber (Finite 5)) JUndefined"
  let ?long = "IsLength_call (JNumber (Finite 3)) (JNumber (Finite 10)) JUndefined"
  let ?same = "IsEqual_call (JString ''x'') JUndefined"
  from duplicate_attachments_both_kept [of ?short ?user "''name''" ?long emptyStorage]
  obtain st1 where
    run1: "attachAll [(?short, ?user, ''name''), (?long, ?user, ''name'')] emptyStorage = Inr st1" and
    reg1: "registry st1 (constructor ?user) = registry emptyStorage (constructor ?user)
             @ [descriptorOf ?short ?user ''name'', descriptorOf ?long ?user ''name'']"
    by auto
  from duplicate_attachments_both_kept [of ?same ?user "''name''" ?same emptyStorage]
  obtain st2 where
    run2: "attachAll [(?same, ?user, ''name''), (?same, ?user, ''name'')] emptyStorage = Inr st2" and
    reg2: "registry st2 (constructor ?user) = registry emptyStorage (constructor ?user)
             @ [descriptorOf ?same ?user ''name'', descriptorOf ?same ?user ''name'']"
    by auto
  from reg1 have list1: "registry st1 (Function ''User'') =
      [\<lparr>kind = IS_LENGTH, ownerType = Function ''User'', fieldName = ''name'',
        arg1 = JNumber (Finite 1), arg2 = JNumber (Finite 5), options = JUndefined\<rparr>,
       \<lparr>kind = IS_LENGTH, ownerType = Function ''User'', fieldName = ''name'',
        arg1 = JNumber (Finite 3), arg2 = JNumber (Finite 10), options = JUndefined\<rparr>]"
    by (simp add: registry_emptyStorage descriptorOf_def)
  from reg2 have list2: "registry st2 (Function ''User'') =
      [\<lparr>kind = IS_EQUAL, ownerType = Function ''User'', fieldName = ''name'',
        arg1 = JString ''x'', arg2 = JUndefined, options = JUndefined\<rparr>,
       \<lparr>kind = IS_EQUAL, ownerType = Function ''User'', fieldName = ''name'',
        arg1 = JString ''x'', arg2 = JUndefined, options = JUndefined\<rparr>]"
    by (simp add: registry_emptyStorage descriptorOf_def)
  from run1 list1 have "\<exists>st'. attachAll [(?short, ?user, ''name''), (?long, ?user, ''name'')]
      emptyStorage = Inr st' \<and> registry st' (Function ''User'') =
      [\<lparr>kind = IS_LENGTH, ownerType = Function ''User'', fieldName = ''name'',
        arg1 = JNumber (Finite 1), arg2 = JNumber (Finite 5), options = JUndefined\<rparr>,
       \<lparr>kind = IS_LENGTH, ownerType = Function ''User'', fieldName = ''name'',
        arg1 = JNumber (Finite 3), arg2 = JNumber (Finite 10), options = JUndefined\<rparr>]"
    by (intro exI [of _ st1] conjI)
  moreover from run2 list2 have "\<exists>st'. attachAll [(?same, ?user, ''name''), (?same, ?user, ''name'')]
      emptyStorage = Inr st' \<and> registry st' (Function ''User'') =
      [\<lparr>kind = IS_EQUAL, ownerType = Function ''User'', fieldName = ''name'',
        arg1 = JString ''x'', arg2 = JUndefined, options = JUndefined\<rparr>,
       \<lparr>kind = IS_EQUAL, ownerType = Function ''User'', fieldName = ''name'',
        arg1 = JString ''x'', arg2 = JUndefined, options = JUndefined\<rparr>]"
    by (intro exI [of _ st2] conjI)
  ultimately show ?thesis by (rule conjI)
qed

text \<open>
  C4: registering a custom constraint under a name that is already bound fails with
  \<open>DuplicateConstraintName\<close> when no override is requested, as in every call that
  \<^verbatim>\<open>ValidatorConstraint\<close> makes; a registration that requests the override succeeds and
  binds the name to its evaluator; and the first registration wins otherwise: after a name
  has been registered it resolves to the first evaluator, and a later registration of the
  name without override fails. This holds whatever the storage does with an entry that has
  no name.
\<close>

theorem duplicate_constraint_name_rejected:
  "(isBound n st \<longrightarrow>
      addConstraintMetadata unnamed (new_ConstraintMetadata t (Some n)) False st
        = Inl DuplicateConstraintName
      \<and> ValidatorConstraint unnamed (Some n) t st = Inl DuplicateConstraintName)
   \<and> (\<exists>st'. addConstraintMetadata unnamed (new_ConstraintMetadata t (Some n)) True st = Inr st'
         \<and> lookupConstraint st' n = Some t)
   \<and> (\<not> isBound n st \<longrightarrow>
        (\<exists>st'. ValidatorConstraint unnamed (Some n) t st = Inr st'
           \<and> lookupConstraint st' n = Some t
           \<and> ValidatorConstraint unnamed (Some n) t' st' = Inl DuplicateConstraintName))"
  by (simp add: ValidatorConstraint_def addConstraintMetadata_def new_ConstraintMetadata_def
        lookup_after_override isBound_def)

theorem duplicate_constraint_name_rejected_witness:
  "\<not> isBound ''isEven'' emptyStorage
   \<and> isBound ''isEven'' (emptyStorage\<lparr>catalog := [\<lparr>evaluator = Function ''IsEven'', name = Some ''isEven''\<rparr>]\<rparr>)
   \<and> ValidatorConstraint (\<lambda>t. Inr) (Some ''isEven'') (Function ''IsEven'') emptyStorage
       = Inr (emptyStorage\<lparr>catalog := [\<lparr>evaluator = Function ''IsEven'', name = Some ''isEven''\<rparr>]\<rparr>)
   \<and> ValidatorConstraint (\<lambda>t. Inr) (Some ''isEven'') (Function ''Other'')
        (emptyStorage\<lparr>catalog := [\<lparr>evaluator = Function ''IsEven'', name = Some ''isEven''\<rparr>]\<rparr>)
       = Inl DuplicateConstraintName
   \<and> lookupConstraint
        (emptyStorage\<lparr>catalog := [\<lparr>evaluator = Function ''IsEven'', name = Some ''isEven''\<rparr>]\<rparr>)
        ''isEven'' = Some (Function ''IsEven'')"
proof -
  let ?st1 = "emptyStorage\<lparr>catalog := [\<lparr>evaluator = Function ''IsEven'', name = Some ''isEven''\<rparr>]\<rparr>"
  let ?keep = "(\<lambda>t. Inr) :: unnamedRegistration"
  have free: "\<not> isBound ''isEven'' emptyStorage"
    by (simp add: isBound_def lookupConstraint_def catalog_emptyStorage)
  have taken: "isBound ''isEven'' ?st1"
    by (simp add: isBound_def lookupConstraint_def)
  have first: "ValidatorConstraint ?keep (Some ''isEven'') (Function ''IsEven'') emptyStorage = Inr ?st1"
    by (simp add: ValidatorConstraint_def addConstraintMetadata_def new_ConstraintMetadata_def
          free catalog_emptyStorage)
  from duplicate_constraint_name_rejected
      [of "''isEven''" emptyStorage ?keep "Function ''IsEven''" "Function ''Other''"] free
  obtain st' where
    "ValidatorConstraint ?keep (Some ''isEven'') (Function ''IsEven'') emptyStorage = Inr st'" and
    "lookupConstraint st' ''isEven'' = Some (Function ''IsEven'')"
    by auto
  with first have found: "lookupConstraint ?st1 ''isEven'' = Some (Function ''IsEven'')"
    by simp
  from duplicate_constraint_name_rejected [of "''isEven''" ?st1 ?keep "Function ''Other''"] taken
  have second: "ValidatorConstraint ?keep (Some ''isEven'') (Function ''Other'') ?st1
      = Inl DuplicateConstraintName"
    by simp
  from free taken first second found show ?thesis
    by (intro conjI)
qed

text \<open>
  C5, as stated: a descriptor of kind \<open>CUSTOM_VALIDATION\<close> carries the name under which the
  custom constraint was registered, and the rule arguments of the caller. The constraint
  class \<open>IsEven\<close> is registered under the name \<open>isEven\<close> and attached to a property: the
  descriptor holds the class, not the name, and its second slot and its options are empty.
\<close>

theorem Validate_carries_name_counterexample:
  "\<not> isl customRuleExample
   \<and> map arg1 (registry (projr customRuleExample) (Function ''Counter''))
       = [JFunction (Function ''IsEven'')]
   \<and> map arg1 (registry (projr customRuleExample) (Function ''Counter''))
       \<noteq> [JString ''isEven'']
   \<and> map arg2 (registry (projr customRuleExample) (Function ''Counter'')) = [JUndefined]
   \<and> map options (registry (projr customRuleExample) (Function ''Counter'')) = [JUndefined]"
  by (simp add: customRuleExample_def ValidatorConstraint_def addConstraintMetadata_def
        new_ConstraintMetadata_def isBound_def lookupConstraint_def emptyStorage_def
        Validate_def addValidationMetadata_def new_ValidationMetadata_def register_def)

text \<open>
  C5, amended: the descriptor that \<^verbatim>\<open>Validate\<close> creates has the kind
  \<open>CUSTOM_VALIDATION\<close> and carries in its first slot the constraint class that the caller
  passed, in its second slot nothing, and the validation options of the caller;
  \<^verbatim>\<open>Validate\<close> takes no rule arguments.
\<close>

theorem Validate_carries_class:
  "Validate constraintClass vo obj p st =
     Inr (register \<lparr>kind = CUSTOM_VALIDATION, ownerType = constructor obj, fieldName = p,
                    arg1 = constraintClass, arg2 = JUndefined, options = vo\<rparr> st)"
  by (simp add: Validate_def addValidationMetadata_def new_ValidationMetadata_def)

text \<open>
  C6: \<^verbatim>\<open>NestedValidation\<close>, applied with options to a prototype and a property name,
  registers a descriptor of kind \<open>NESTED_VALIDATION\<close> for the prototype's constructor and
  the property, with the given options and with both parameter slots empty.
\<close>

theorem NestedValidation_marks_field:
  "NestedValidation vo obj p st =
     Inr (register \<lparr>kind = NESTED_VALIDATION, ownerType = constructor obj, fieldName = p,
                    arg1 = JUndefined, arg2 = JUndefined, options = vo\<rparr> st)"
  by (simp add: NestedValidation_def addValidationMetadata_def new_ValidationMetadata_def)



text \<open>
  C8, as stated: every rule attachment stores its rule parameters, of whatever type, as
  they were passed. \<^verbatim>\<open>IsMatch\<close> called with an array as its second argument and no third
  argument, and \<^verbatim>\<open>IsMatch\<close> called with an object as its second argument and \<open>null\<close> as
  its third, both succeed, but the second slot of the descriptor stays undefined: the second
  argument has become the validation options.
\<close>

theorem IsMatch_second_argument_counterexample:
  "IsMatch (JRegExp ''^a'' ''g'') (JArray [JString ''i'']) JUndefined
     \<lparr>constructor = Function ''User''\<rparr> ''tag'' emptyStorage =
     Inr (register \<lparr>kind = IS_MATCH, ownerType = Function ''User'', fieldName = ''tag'',
                    arg1 = JRegExp ''^a'' ''g'', arg2 = JUndefined,
                    options = JArray [JString ''i'']\<rparr> emptyStorage)
   \<and> JUndefined \<noteq> JArray [JString ''i'']
   \<and> IsMatch (JRegExp ''^a'' ''g'') (JObject [(''flags'', JString ''i'')]) JNull
       \<lparr>constructor = Function ''User''\<rparr> ''tag'' emptyStorage =
       Inr (register \<lparr>kind = IS_MATCH, ownerType = Function ''User'', fieldName = ''tag'',
                      arg1 = JRegExp ''^a'' ''g'', arg2 = JUndefined,
                      options = JObject [(''flags'', JString ''i'')]\<rparr> emptyStorage)
   \<and> JUndefined \<noteq> JObject [(''flags'', JString ''i'')]"
  by (simp add: IsMatch_def addValidationMetadata_def new_ValidationMetadata_def)

text \<open>
  C8, amended: no rule attachment checks its rule parameters: whatever values they are,
  absent ones included, the attachment succeeds and appends one descriptor. Every call
  made as the signatures declare stores the first parameter in the first slot and the
  second parameter in the second slot, as they were passed. \<^verbatim>\<open>IsMatch\<close>, called with
  values of any type, always stores its first argument in the first slot; it stores its
  second argument in the second slot and its third argument as the options, as they were
  passed, whenever the second argument is not an object or the third argument is truthy;
  when the second argument is an object and the third argument is absent or falsy, the
  second slot stays undefined and the second argument becomes the options.
\<close>

theorem attach_stores_parameters:
  "(\<exists>d st'. attach a obj p st = Inr st'
      \<and> registry st' (constructor obj) = registry st (constructor obj) @ [d]
      \<and> arg1 d = fst (ruleParameters a) \<and> arg2 d = snd (ruleParameters a))
   \<and> (\<exists>d st'. IsMatch pattern m vo obj p st = Inr st'
      \<and> registry st' (constructor obj) = registry st (constructor obj) @ [d]
      \<and> arg1 d = pattern
      \<and> (\<not> instanceof_Object m \<or> truthy vo \<longrightarrow> arg2 d = m \<and> options d = vo)
      \<and> (instanceof_Object m \<and> \<not> truthy vo \<longrightarrow> arg2 d = JUndefined \<and> options d = m))"
proof -
  have "arg1 (descriptorOf a obj p) = fst (ruleParameters a)
      \<and> arg2 (descriptorOf a obj p) = snd (ruleParameters a)"
    by (simp add: descriptorOf_def)
  then have calls: "\<exists>d st'. attach a obj p st = Inr st'
      \<and> registry st' (constructor obj) = registry st (constructor obj) @ [d]
      \<and> arg1 d = fst (ruleParameters a) \<and> arg2 d = snd (ruleParameters a)"
    using attach_registers [of a obj p st] attach_appends [of a obj p st] by blast
  let ?d = "\<lparr>kind = IS_MATCH, ownerType = constructor obj, fieldName = p, arg1 = pattern,
      arg2 = (if instanceof_Object m \<and> \<not> truthy vo then JUndefined else m),
      options = (if instanceof_Object m \<and> \<not> truthy vo then m else vo)\<rparr>"
  have "IsMatch pattern m vo obj p st = Inr (register ?d st)"
    by (rule IsMatch_registers)
  moreover have "registry (register ?d st) (constructor obj) = registry st (constructor obj) @ [?d]"
    by (simp add: registry_register)
  moreover have "arg1 ?d = pattern"
    by simp
  moreover have "\<not> instanceof_Object m \<or> truthy vo \<longrightarrow> arg2 ?d = m \<and> options ?d = vo"
    by auto
  moreover have "instanceof_Object m \<and> \<not> truthy vo \<longrightarrow> arg2 ?d = JUndefined \<and> options ?d = m"
    by simp
  ultimately have raw: "\<exists>d st'. IsMatch pattern m vo obj p st = Inr st'
      \<and> registry st' (constructor obj) = registry st (constructor obj) @ [d]
      \<and> arg1 d = pattern
      \<and> (\<not> instanceof_Object m \<or> truthy vo \<longrightarrow> arg2 d = m \<and> options d = vo)
      \<and> (instanceof_Object m \<and> \<not> truthy vo \<longrightarrow> arg2 d = JUndefined \<and> options d = m)"
    by (intro exI [of _ ?d] exI [of _ "register ?d st"] conjI)
  from calls raw show ?thesis by (rule conjI)
qed

theorem attach_stores_parameters_witness:
  "(\<exists>d st'. attach (IsByteLength_call (JString ''two'') JNull JUndefined)
              \<lparr>constructor = Function ''User''\<rparr> ''tag'' emptyStorage = Inr st'
      \<and> registry st' (Function ''User'') = [d]
      \<and> arg1 d = JString ''two'' \<and> arg2 d = JNull)
   \<and> \<not> instanceof_Object (JNumber (Finite 5))
   \<and> (\<exists>d st'. IsMatch (JRegExp ''^a'' ''g'') (JNumber (Finite 5)) JUndefined
              \<lparr>constructor = Function ''User''\<rparr> ''tag'' emptyStorage = Inr st'
      \<and> registry st' (Function ''User'') = [d]
      \<and> arg1 d = JRegExp ''^a'' ''g'' \<and> arg2 d = JNumber (Finite 5) \<and> options d = JUndefined)
   \<and> instanceof_Object (JArray [JString ''i'']) \<and> \<not> truthy JNull
   \<and> (\<exists>d st'. IsMatch (JRegExp ''^a'' ''g'') (JArray [JString ''i'']) JNull
              \<lparr>constructor = Function ''User''\<rparr> ''tag'' emptyStorage = Inr st'
      \<and> registry st' (Function ''User'') = [d]
      \<and> arg1 d = JRegExp ''^a'' ''g'' \<and> arg2 d = JUndefined
      \<and> options d = JArray [JString ''i''])"
proof -
  let ?user = "\<lparr>constructor = Function ''User''\<rparr>"
  let ?pat = "JRegExp ''^a'' ''g''"
  let ?call = "IsByteLength_call (JString ''two'') JNull JUndefined"
  have prim: "\<not> instanceof_Object (JNumber (Finite 5))"
    by simp
  have arr: "instanceof_Object (JArray [JString ''i''])" and null: "\<not> truthy JNull"
    by simp_all
  from attach_stores_parameters
      [of ?call ?user "''tag''" emptyStorage ?pat "JNumber (Finite 5)" JUndefined] prim
  obtain d1 s1 d2 s2 where
    a1: "attach ?call ?user ''tag'' emptyStorage = Inr s1" and
    a2: "registry s1 (Function ''User'') = [d1]" and
    a3: "arg1 d1 = JString ''two''" and a4: "arg2 d1 = JNull" and
    b1: "IsMatch ?pat (JNumber (Finite 5)) JUndefined ?user ''tag'' emptyStorage = Inr s2" and
    b2: "registry s2 (Function ''User'') = [d2]" and
    b3: "arg1 d2 = ?pat" and b4: "arg2 d2 = JNumber (Finite 5)" and b5: "options d2 = JUndefined"
    by (auto simp: registry_emptyStorage)
  from a1 a2 a3 a4 have one: "\<exists>d st'. attach ?call ?user ''tag'' emptyStorage = Inr st'
      \<and> registry st' (Function ''User'') = [d]
      \<and> arg1 d = JString ''two'' \<and> arg2 d = JNull"
    by (intro exI [of _ d1] exI [of _ s1] conjI)
  from b1 b2 b3 b4 b5
  have two: "\<exists>d st'. IsMatch ?pat (JNumber (Finite 5)) JUndefined ?user ''tag'' emptyStorage = Inr st'
      \<and> registry st' (Function ''User'') = [d]
      \<and> arg1 d = ?pat \<and> arg2 d = JNumber (Finite 5) \<and> options d = JUndefined"
    by (intro exI [of _ d2] exI [of _ s2] conjI)
  from attach_stores_parameters
      [of ?call ?user "''tag''" emptyStorage ?pat "JArray [JString ''i'']" JNull] arr null
  obtain d3 s3 where
    "IsMatch ?pat (JArray [JString ''i'']) JNull ?user ''tag'' emptyStorage = Inr s3" and
    "registry s3 (Function ''User'') = [d3]" and
    "arg1 d3 = ?pat" and "arg2 d3 = JUndefined" and "options d3 = JArray [JString ''i'']"
    by (auto simp: registry_emptyStorage)
  then have three: "\<exists>d st'. IsMatch ?pat (JArray [JString ''i'']) JNull ?user ''tag'' emptyStorage = Inr st'
      \<and> registry st' (Function ''User'') = [d]
      \<and> arg1 d = ?pat \<and> arg2 d = JUndefined \<and> options d = JArray [JString ''i'']"
    by (intro exI [of _ d3] exI [of _ s3] conjI)
  from one prim two arr null three show ?thesis
    by (intro conjI)
qed

text \<open>
  C9: when the second argument of \<^verbatim>\<open>IsMatch\<close> is an object and there is no third
  argument, the object becomes the validation options and the modifiers slot stays
  undefined; when the second argument is a string, it is stored as the modifiers and the
  third argument, given or not, becomes the validation options. The first slot holds the
  pattern in both cases.
\<close>

theorem IsMatch_disambiguates:
  "(instanceof_Object m \<longrightarrow>
      IsMatch pattern m JUndefined obj p st =
        Inr (register \<lparr>kind = IS_MATCH, ownerType = constructor obj, fieldName = p,
                       arg1 = pattern, arg2 = JUndefined, options = m\<rparr> st))
   \<and> IsMatch pattern (JString s) vo obj p st =
        Inr (register \<lparr>kind = IS_MATCH, ownerType = constructor obj, fieldName = p,
                       arg1 = pattern, arg2 = JString s, options = vo\<rparr> st)"
  by (simp add: IsMatch_def truthy_object addValidationMetadata_def new_ValidationMetadata_def)

theorem IsMatch_disambiguates_witness:
  "instanceof_Object (JObject [(''message'', JString ''no match'')])
   \<and> IsMatch (JRegExp ''^a'' ''i'') (JObject [(''message'', JString ''no match'')]) JUndefined
       \<lparr>constructor = Function ''User''\<rparr> ''name'' emptyStorage =
       Inr (register \<lparr>kind = IS_MATCH, ownerType = Function ''User'', fieldName = ''name'',
                      arg1 = JRegExp ''^a'' ''i'', arg2 = JUndefined,
                      options = JObject [(''message'', JString ''no match'')]\<rparr> emptyStorage)
   \<and> IsMatch (JRegExp ''^a'' '''') (JString ''i'') (JObject [(''each'', JBoolean True)])
       \<lparr>constructor = Function ''User''\<rparr> ''name'' emptyStorage =
       Inr (register \<lparr>kind = IS_MATCH, ownerType = Function ''User'', fieldName = ''name'',
                      arg1 = JRegExp ''^a'' '''', arg2 = JString ''i'',
                      options = JObject [(''each'', JBoolean True)]\<rparr> emptyStorage)"
proof -
  have obj: "instanceof_Object (JObject [(''message'', JString ''no match'')])"
    by simp
  show ?thesis
    using obj
      IsMatch_disambiguates
        [of "JObject [(''message'', JString ''no match'')]" "JRegExp ''^a'' ''i''"
            "\<lparr>constructor = Function ''User''\<rparr>" "''name''" emptyStorage]
      IsMatch_disambiguates
        [of JNull "JRegExp ''^a'' ''''"
            "\<lparr>constructor = Function ''User''\<rparr>" "''name''" emptyStorage
            "''i''" "JObject [(''each'', JBoolean True)]"]
    by simp
qed

end
